theory Spec2Isabelle
  imports Complex_Main "HOL-Library.AList"
begin

section \<open>Common conventions\<close>

text \<open>
  A point in time is an integer number of microseconds.  A Python \<open>datetime\<close> is either
  naive (wall-clock time without a timezone) or timezone-aware; two datetimes of the same
  kind are subtracted as numbers, and subtracting a naive and an aware one raises
  \<open>TypeError\<close> (\<open>None\<close> here).
\<close>

type_synonym time = int

datatype datetime = Naive time | Aware time

fun dt_sub :: "datetime \<Rightarrow> datetime \<Rightarrow> int option" where
  "dt_sub (Naive a) (Naive b) = Some (a - b)"
| "dt_sub (Aware a) (Aware b) = Some (a - b)"
| "dt_sub _ _ = None"

definition SECOND :: int where "SECOND = 1000000"
definition MINUTE :: int where "MINUTE = 60 * SECOND"
definition HOUR :: int where "HOUR = 60 * MINUTE"
definition DAY :: int where "DAY = 24 * HOUR"

text \<open>\<open>dt.replace(microsecond=0)\<close>.\<close>

definition replace_microsecond0 :: "time \<Rightarrow> time" where
  "replace_microsecond0 t = t - t mod SECOND"

text \<open>\<open>int(x / d)\<close> on an exact quotient: Python's \<open>int\<close> truncates towards zero.\<close>

definition int_trunc_div :: "int \<Rightarrow> int \<Rightarrow> int" where
  "int_trunc_div a d = (if 0 \<le> a then a div d else - ((- a) div d))"

text \<open>\<open>str(n)\<close> of a Python integer.\<close>

definition digit_char :: "nat \<Rightarrow> char" where
  "digit_char d = ''0123456789'' ! d"

fun str_nat :: "nat \<Rightarrow> string" where
  "str_nat n = (if n < 10 then [digit_char n] else str_nat (n div 10) @ [digit_char (n mod 10)])"

declare str_nat.simps [simp del]

definition str_int :: "int \<Rightarrow> string" where
  "str_int i = (if i < 0 then CHR ''-'' # str_nat (nat (- i)) else str_nat (nat i))"

section \<open>Event store and bracketing (core/events/ups\_notifier.py)\<close>

text \<open>
  One row of the \<open>ups_events\<close> table (core/db/orm/orm\_ups\_events.py).  The timestamps are
  naive datetimes: \<open>store_event_in_database\<close> writes \<open>datetime.now()\<close> without a timezone and
  the SQLite store keeps none.
\<close>

record ups_event =
  event_id :: nat
  timestamp_tz :: time
  timestamp_tz_begin :: "time option"
  timestamp_tz_end :: "time option"
  ups_name :: string
  event_type :: string
  event_message :: string
  source_ip :: "string option"
  acknowledged :: bool

text \<open>The table is the list of its rows in insertion order.\<close>

type_synonym event_table = "ups_event list"

text \<open>
  What the database does during one call of \<open>store_event_in_database\<close>: whether the lookup
  of the open events raises, whether the commit that stores their end timestamps raises,
  and whether adding and committing the new row raises.
\<close>

record db_faults =
  query_raises :: bool
  close_commit_raises :: bool
  insert_raises :: bool

definition no_faults :: db_faults where
  "no_faults = \<lparr> query_raises = False, close_commit_raises = False, insert_raises = False \<rparr>"

definition is_open_for :: "string \<Rightarrow> ups_event \<Rightarrow> bool" where
  "is_open_for u e = (ups_name e = u \<and> timestamp_tz_end e = None)"

text \<open>\<open>UPSEventModel.query.filter_by(ups_name=ups_name, timestamp_tz_end=None).all()\<close>\<close>

definition open_events :: "event_table \<Rightarrow> string \<Rightarrow> ups_event list" where
  "open_events db u = filter (is_open_for u) db"

text \<open>
  \<open>close_previous_events\<close>: every open event of the UPS gets the end timestamp, and the
  change is committed when there was one; the number of closed events is returned.  The
  lookup and the commit sit in one \<open>try\<close>: when either raises, nothing is stored and the
  function answers 0.
\<close>

definition close_previous_events ::
    "db_faults \<Rightarrow> string \<Rightarrow> time \<Rightarrow> event_table \<Rightarrow> nat \<times> event_table" where
  "close_previous_events f u current_time db =
     (if query_raises f then (0, db)
      else (let count = length (open_events db u)
            in if 0 < count \<and> close_commit_raises f then (0, db)
               else (count,
                     map (\<lambda>e. if is_open_for u e then e\<lparr>timestamp_tz_end := Some current_time\<rparr>
                              else e) db)))"

text \<open>The primary key the database gives to the next row.\<close>

definition next_event_id :: "event_table \<Rightarrow> nat" where
  "next_event_id db = Suc (fold max (map event_id db) 0)"

definition new_event :: "nat \<Rightarrow> time \<Rightarrow> string \<Rightarrow> string \<Rightarrow> string option \<Rightarrow> ups_event" where
  "new_event i now u ty ip =
     \<lparr> event_id = i, timestamp_tz = now, timestamp_tz_begin = Some now,
       timestamp_tz_end = None, ups_name = u, event_type = ty,
       event_message = ''UPS '' @ u @ '' event: '' @ ty,
       source_ip = ip, acknowledged = False \<rparr>"

text \<open>
  The second half of \<open>store_event_in_database\<close>: the new row is added and committed; an
  exception is answered with \<open>False\<close>.
\<close>

definition insert_event ::
    "db_faults \<Rightarrow> time \<Rightarrow> string option \<Rightarrow> string \<Rightarrow> string \<Rightarrow> event_table \<Rightarrow> bool \<times> event_table" where
  "insert_event f now ip u ty db =
     (if insert_raises f then (False, db)
      else (True, db @ [new_event (next_event_id db) now u ty ip]))"

text \<open>
  \<open>store_event_in_database\<close>: \<open>clock\<close> is what \<open>datetime.now()\<close> returns, \<open>ip\<close> is the
  \<open>UPS_HOST\<close> setting returned by \<open>get_source_ip\<close>.  The result is the returned flag and
  the table afterwards.  Closing and inserting are two commits.
\<close>

definition store_event_in_database ::
    "db_faults \<Rightarrow> time \<Rightarrow> string option \<Rightarrow> string \<Rightarrow> string \<Rightarrow> event_table \<Rightarrow> bool \<times> event_table" where
  "store_event_in_database f clock ip u ty db =
     (let now = replace_microsecond0 clock;
          db1 = snd (close_previous_events f u now db)
      in insert_event f now ip u ty db1)"

text \<open>The bracketing invariant: no UPS has more than one open event.\<close>

definition at_most_one_open :: "event_table \<Rightarrow> bool" where
  "at_most_one_open db = (\<forall>u \<in> set (map ups_name db). length (open_events db u) \<le> 1)"

text \<open>An ONBATT event of \<open>ups1\<close>, still open, used as a concrete table below.\<close>

definition ev0 :: ups_event where
  "ev0 = new_event 1 1000000000 ''ups1'' ''ONBATT'' (Some ''10.0.0.1'')"

text \<open>
  Two recordings for the same UPS, started by two events that arrive together, each in a
  process of its own: nothing orders the four commits, and here both recordings close the
  open events before either inserts its row.
\<close>

definition interleaved_recordings ::
    "db_faults \<Rightarrow> time \<Rightarrow> time \<Rightarrow> string option \<Rightarrow> string \<Rightarrow> string \<Rightarrow> string \<Rightarrow> event_table
       \<Rightarrow> event_table" where
  "interleaved_recordings f clock1 clock2 ip u ty1 ty2 db =
     (let now1 = replace_microsecond0 clock1;
          now2 = replace_microsecond0 clock2;
          db1 = snd (close_previous_events f u now1 db);
          db2 = snd (close_previous_events f u now2 db1);
          db3 = snd (insert_event f now1 ip u ty1 db2)
      in snd (insert_event f now2 ip u ty2 db3))"

text \<open>A database in which the commit of the end timestamps raises, and one in which the
  lookup of the open events raises.\<close>

definition commit_fault :: db_faults where
  "commit_fault = \<lparr> query_raises = False, close_commit_raises = True, insert_raises = False \<rparr>"

definition query_fault :: db_faults where
  "query_fault = \<lparr> query_raises = True, close_commit_raises = False, insert_raises = False \<rparr>"

subsection \<open>Battery duration of an ONLINE notification (\<open>send_email_notification\<close>)\<close>

text \<open>\<open>.order_by(UPSEventModel.timestamp_tz.desc())\<close>; rows with equal timestamps keep
  their insertion order.\<close>

definition order_by_timestamp_desc :: "ups_event list \<Rightarrow> ups_event list" where
  "order_by_timestamp_desc es = sort_key (\<lambda>e. - timestamp_tz e) es"

text \<open>\<open>filter_by(ups_name=ups_name, event_type='ONBATT', timestamp_tz_end=None)
  .order_by(timestamp_tz.desc()).first()\<close>\<close>

definition open_onbatt_event :: "event_table \<Rightarrow> string \<Rightarrow> ups_event option" where
  "open_onbatt_event db u =
     (case order_by_timestamp_desc
             (filter (\<lambda>e. ups_name e = u \<and> event_type e = ''ONBATT'' \<and> timestamp_tz_end e = None) db) of
        [] \<Rightarrow> None
      | e # _ \<Rightarrow> Some e)"

text \<open>\<open>filter_by(ups_name=ups_name, event_type='ONBATT').filter(timestamp_tz_end != None)
  .order_by(timestamp_tz.desc()).limit(5).all()\<close>\<close>

definition closed_onbatt_events :: "event_table \<Rightarrow> string \<Rightarrow> ups_event list" where
  "closed_onbatt_events db u =
     take 5 (order_by_timestamp_desc
       (filter (\<lambda>e. ups_name e = u \<and> event_type e = ''ONBATT'' \<and> timestamp_tz_end e \<noteq> None) db))"

text \<open>\<open>f"{int(duration_seconds / 60)} min"\<close> for a duration in microseconds.\<close>

definition format_minutes :: "int \<Rightarrow> string" where
  "format_minutes d = str_int (int_trunc_div d MINUTE) @ '' min''"

text \<open>
  The loop over the closed events: the first one that ended less than an hour before \<open>now\<close>
  gives the duration between its own timestamp and its end; then the loop stops.  The outer
  \<open>None\<close> stands for the \<open>TypeError\<close> of a subtraction.
\<close>

fun duration_of_recent_closed :: "datetime \<Rightarrow> ups_event list \<Rightarrow> string option option" where
  "duration_of_recent_closed now [] = Some None"
| "duration_of_recent_closed now (e # es) =
     (case timestamp_tz_end e of
        None \<Rightarrow> duration_of_recent_closed now es
      | Some en \<Rightarrow>
          (case dt_sub now (Naive en) of
             None \<Rightarrow> None
           | Some d \<Rightarrow>
               if d < HOUR
               then map_option (\<lambda>dur. Some (format_minutes dur))
                      (dt_sub (Naive en) (Naive (timestamp_tz e)))
               else duration_of_recent_closed now es))"

text \<open>
  The \<open>battery_duration\<close> field of the e-mail for an ONLINE event.  \<open>get_ups_info\<close> always
  delivers \<open>'0 min'\<close> for it, which stays when the queries or a subtraction raise (the
  handler only logs) or give nothing (the \<open>device_uptime\<close> fallback never applies:
  \<open>event_data\<close> has no such key).  \<open>clock\<close> is what \<open>datetime.now()\<close> returns in
  \<open>send_email_notification\<close>; \<open>now.astimezone(local_tz)\<close> makes it timezone-aware, the
  configured timezone being always there.
\<close>

definition battery_duration_online :: "bool \<Rightarrow> event_table \<Rightarrow> string \<Rightarrow> time \<Rightarrow> string" where
  "battery_duration_online raises db u clock =
     (if raises then ''0 min''
      else
        (let now = Aware clock
         in case open_onbatt_event db u of
              Some e \<Rightarrow>
                (case dt_sub now (Naive (timestamp_tz e)) of
                   Some d \<Rightarrow> format_minutes d
                 | None \<Rightarrow> ''0 min'')
            | None \<Rightarrow>
                (case duration_of_recent_closed now (closed_onbatt_events db u) of
                   Some (Some s) \<Rightarrow> s
                 | _ \<Rightarrow> ''0 min'')))"

text \<open>The tables after an ONBATT event at second 2000 and an ONLINE event at second 2300.\<close>

definition db1_demo :: event_table where
  "db1_demo = [ev0\<lparr>timestamp_tz_end := Some 2000000000\<rparr>,
               new_event 2 2000000000 ''ups1'' ''ONBATT'' None]"

definition db2_demo :: event_table where
  "db2_demo = [ev0\<lparr>timestamp_tz_end := Some 2000000000\<rparr>,
               (new_event 2 2000000000 ''ups1'' ''ONBATT'' None)\<lparr>timestamp_tz_end := Some 2300000000\<rparr>,
               new_event 3 2300000000 ''ups1'' ''ONLINE'' None]"

subsection \<open>Dispatch of an event (\<open>process_ups_event\<close>)\<close>

text \<open>
  The collaborators of \<open>process_ups_event\<close> that are not part of this file's code
  (the e-mail notifier, the HTTP request to ntfy, the webhook module, the configuration
  tables) are taken as an environment.  A call that may raise returns a sum: \<open>Inl\<close> carries
  the message of the exception.
\<close>

record dispatch_env =
  enabled_notifications :: "nat list"
    \<comment> \<open>\<open>id_email\<close> of the enabled \<open>NotificationSettings\<close> rows of the event type
        (\<open>get_enabled_notifications\<close>, which answers \<open>[]\<close> on any exception)\<close>
  email_config_ok :: bool
    \<comment> \<open>\<open>verify_email_config()\<close>\<close>
  HAS_NTFY :: bool
  ntfy_query :: "string list"
    \<comment> \<open>the ntfy configurations (by topic) whose \<open>notify_<event>\<close> flag is set\<close>
  HAS_WEBHOOK :: bool
  email_send :: "nat \<Rightarrow> string + bool \<times> string"
    \<comment> \<open>building and sending the e-mail of one job: raises, or \<open>(success, message)\<close>\<close>
  ntfy_post :: "string \<Rightarrow> string + nat"
    \<comment> \<open>building and posting one ntfy message: raises, or the HTTP status code\<close>
  webhook_send :: "string + bool \<times> string"
    \<comment> \<open>\<open>send_webhook_notification(event_type, ups_name)\<close>: raises, or \<open>success\<close> and \<open>message\<close>\<close>

datatype channel = Email nat | Ntfy string | Webhook

datatype outcome = Sent | Failed string | Raised string

text \<open>What a dispatch does, in order: the recording of the event, then the sends.\<close>

datatype action = RecordEvent bool | Send channel outcome

text \<open>\<open>get_enabled_ntfy_configs\<close>\<close>

definition get_enabled_ntfy_configs :: "dispatch_env \<Rightarrow> string list" where
  "get_enabled_ntfy_configs env = (if \<not> HAS_NTFY env then [] else ntfy_query env)"

text \<open>\<open>send_email_notification\<close>: every exception is caught and logged.\<close>

definition send_email_notification :: "dispatch_env \<Rightarrow> nat \<Rightarrow> action" where
  "send_email_notification env config_id =
     (case email_send env config_id of
        Inl e \<Rightarrow> Send (Email config_id) (Raised e)
      | Inr (success, message) \<Rightarrow>
          Send (Email config_id) (if success then Sent else Failed message))"

text \<open>\<open>send_ntfy_notification\<close>: every exception is caught and answered with \<open>False\<close>.\<close>

definition send_ntfy_notification :: "dispatch_env \<Rightarrow> string \<Rightarrow> action list" where
  "send_ntfy_notification env topic =
     (if \<not> HAS_NTFY env then []
      else [case ntfy_post env topic of
              Inl e \<Rightarrow> Send (Ntfy topic) (Raised e)
            | Inr code \<Rightarrow>
                Send (Ntfy topic)
                  (if code \<in> {200, 201, 202} then Sent else Failed (str_int (int code)))])"

text \<open>The \<open>try\<close> block around \<open>send_webhook_notification\<close> inside \<open>process_ups_event\<close>.\<close>

definition try_webhook :: "dispatch_env \<Rightarrow> action" where
  "try_webhook env =
     (case webhook_send env of
        Inl e \<Rightarrow> Send Webhook (Raised e)
      | Inr (success, message) \<Rightarrow> Send Webhook (if success then Sent else Failed message))"

text \<open>
  \<open>process_ups_event\<close>: the returned flag, the event table afterwards and what was done.
  The except-handlers only write log lines, which are taken not to raise.
\<close>

definition process_ups_event ::
    "db_faults \<Rightarrow> time \<Rightarrow> string option \<Rightarrow> dispatch_env \<Rightarrow> string \<Rightarrow> string \<Rightarrow> event_table
       \<Rightarrow> bool \<times> event_table \<times> action list" where
  "process_ups_event f clock ip env u ty db =
     (case store_event_in_database f clock ip u ty db of
        (False, db1) \<Rightarrow> (False, db1, [RecordEvent False])
      | (True, db1) \<Rightarrow>
          (let notifications = enabled_notifications env;
               ntfy_configs = get_enabled_ntfy_configs env
           in if notifications = [] \<and> ntfy_configs = [] \<and> \<not> HAS_WEBHOOK env
              then (True, db1, [RecordEvent True])
              else (True, db1,
                    [RecordEvent True]
                    @ (if notifications \<noteq> [] \<and> email_config_ok env
                       then map (send_email_notification env) notifications else [])
                    @ (if ntfy_configs \<noteq> [] \<and> HAS_NTFY env
                       then concat (map (send_ntfy_notification env) ntfy_configs) else [])
                    @ (if HAS_WEBHOOK env then [try_webhook env] else []))))"

text \<open>The channel of a send, and the channels a dispatch attempted, in order.\<close>

fun attempted :: "action list \<Rightarrow> channel list" where
  "attempted [] = []"
| "attempted (RecordEvent _ # as) = attempted as"
| "attempted (Send c _ # as) = c # attempted as"

text \<open>Two environments with the same configuration, whatever their sends do.\<close>

definition same_configuration :: "dispatch_env \<Rightarrow> dispatch_env \<Rightarrow> bool" where
  "same_configuration e1 e2 =
     (enabled_notifications e1 = enabled_notifications e2 \<and> email_config_ok e1 = email_config_ok e2
      \<and> HAS_NTFY e1 = HAS_NTFY e2 \<and> ntfy_query e1 = ntfy_query e2 \<and> HAS_WEBHOOK e1 = HAS_WEBHOOK e2)"

text \<open>An environment with one e-mail job and a webhook whose send raises a connection error.\<close>

definition env_demo :: dispatch_env where
  "env_demo = \<lparr> enabled_notifications = [7], email_config_ok = True, HAS_NTFY = False,
                ntfy_query = [], HAS_WEBHOOK = True,
                email_send = (\<lambda>_. Inr (True, ''sent'')),
                ntfy_post = (\<lambda>_. Inr 200),
                webhook_send = Inl ''ConnectionError'' \<rparr>"

section \<open>Python values\<close>

text \<open>
  A Python \<open>float\<close> is the rational number it stands for, or not-a-number; infinities are
  outside this model.  The results of floating-point arithmetic are not computed here: the
  operations are parameters (see \<open>py\<close> below).
\<close>

datatype flt = Fin rat | NaN

text \<open>
  The values a sample holds: an \<open>int\<close> (within the 64-bit range, as pandas needs for a
  numeric column), a \<open>float\<close>, a \<open>str\<close>, a \<open>datetime\<close>.  \<open>PNaN\<close> is the float NaN, which
  is also what pandas puts into a cell whose row lacks the column.
\<close>

datatype pyval = PInt int | PFloat rat | PStr string | PTime time | PNaN

text \<open>A \<open>dict\<close> with string keys, as the list of its items in insertion order.\<close>

type_synonym 'v pydict = "(string \<times> 'v) list"

text \<open>
  What Python and its libraries compute on strings and floats is a parameter of the model:
  \<open>float(s)\<close> of a string (\<open>None\<close>: it raises \<open>ValueError\<close>), \<open>str(x)\<close> of a float, the float
  product, quotient and difference, \<open>sum(xs)\<close>, \<open>round(x, 2)\<close>, the \<open>mean()\<close> and the
  \<open>round(2)\<close> of a pandas column, and the \<open>avg\<close> of the database.
\<close>

record py =
  py_float :: "string \<Rightarrow> flt option"
  py_str :: "rat \<Rightarrow> string"
  fmul :: "rat \<Rightarrow> rat \<Rightarrow> rat"
  fdiv :: "rat \<Rightarrow> rat \<Rightarrow> rat"
  fsub :: "rat \<Rightarrow> rat \<Rightarrow> rat"
  fsum :: "rat list \<Rightarrow> rat"
  py_round2 :: "rat \<Rightarrow> rat"
  np_mean :: "rat list \<Rightarrow> rat"
  np_round2 :: "rat \<Rightarrow> rat"
  sql_avg :: "rat list \<Rightarrow> rat"

text \<open>\<open>float(v)\<close> of a value; \<open>None\<close>: it raises \<open>ValueError\<close> or \<open>TypeError\<close>.\<close>

fun float_of :: "py \<Rightarrow> pyval \<Rightarrow> flt option" where
  "float_of p (PInt i) = Some (Fin (of_int i))"
| "float_of p (PFloat r) = Some (Fin r)"
| "float_of p (PStr s) = py_float p s"
| "float_of p (PTime t) = None"
| "float_of p PNaN = Some NaN"

text \<open>The value a successful \<open>float(...)\<close> leaves in a dict.\<close>

fun pyval_of_flt :: "flt \<Rightarrow> pyval" where
  "pyval_of_flt (Fin r) = PFloat r"
| "pyval_of_flt NaN = PNaN"

text \<open>\<open>d[k] = v\<close> and \<open>{**base, **d}\<close>.\<close>

definition dict_set :: "string \<Rightarrow> 'v \<Rightarrow> 'v pydict \<Rightarrow> 'v pydict" where
  "dict_set k v d = AList.update k v d"

definition dict_merge :: "'v pydict \<Rightarrow> 'v pydict \<Rightarrow> 'v pydict" where
  "dict_merge base d = fold (\<lambda>(k, v). dict_set k v) d base"

text \<open>\<open>key.replace('.', '_')\<close>\<close>

definition dots_to_underscores :: "string \<Rightarrow> string" where
  "dots_to_underscores k = map (\<lambda>c. if c = CHR ''.'' then CHR ''_'' else c) k"

text \<open>The value of the first of the keys that the dict has (an \<open>if\<close>/\<open>elif\<close> chain of
  \<open>key in data\<close> tests).\<close>

fun lookup_first :: "string list \<Rightarrow> 'v pydict \<Rightarrow> 'v option" where
  "lookup_first [] d = None"
| "lookup_first (k # ks) d = (case map_of d k of Some v \<Rightarrow> Some v | None \<Rightarrow> lookup_first ks d)"

section \<open>UPS reader (core/db/ups/utils.py, core/db/ups/data.py)\<close>

text \<open>
  \<open>calculate_realpower\<close>: \<open>nominal_setting\<close> is the \<open>UPS_REALPOWER_NOMINAL\<close> setting.  Every
  exception (a \<open>float(...)\<close> that raises) is caught and the data returned as it is.  The
  three values the function reads first:
\<close>

text \<open>\<open>current_value is None or float(current_value) == 0\<close>; \<open>None\<close>: \<open>float\<close> raises.\<close>

definition realpower_absent_or_zero :: "py \<Rightarrow> string pydict \<Rightarrow> bool option" where
  "realpower_absent_or_zero p data =
     (case lookup_first [''ups.realpower'', ''ups_realpower''] data of
        None \<Rightarrow> Some True
      | Some current_value \<Rightarrow> map_option (\<lambda>x. x = Fin 0) (py_float p current_value))"

text \<open>\<open>load_percent = float(load_value if load_value is not None else 0)\<close>\<close>

definition load_percent_of :: "py \<Rightarrow> string pydict \<Rightarrow> flt option" where
  "load_percent_of p data =
     (case lookup_first [''ups.load'', ''ups_load''] data of
        None \<Rightarrow> Some (Fin 0)
      | Some load_value \<Rightarrow> py_float p load_value)"

text \<open>\<open>nominal_power = float(nominal_value if nominal_value is not None else
  UPS_REALPOWER_NOMINAL)\<close>\<close>

definition nominal_power_of :: "py \<Rightarrow> pyval \<Rightarrow> string pydict \<Rightarrow> flt option" where
  "nominal_power_of p nominal_setting data =
     (case lookup_first [''ups.realpower.nominal'', ''ups_realpower_nominal'',
                         ''UPS_REALPOWER_NOMINAL''] data of
        None \<Rightarrow> float_of p nominal_setting
      | Some nominal_value \<Rightarrow> py_float p nominal_value)"

definition calculate_realpower :: "py \<Rightarrow> pyval \<Rightarrow> string pydict \<Rightarrow> string pydict" where
  "calculate_realpower p nominal_setting data =
     (case realpower_absent_or_zero p data of
        None \<Rightarrow> data
      | Some False \<Rightarrow> data
      | Some True \<Rightarrow>
         (case load_percent_of p data of
            None \<Rightarrow> data
          | Some load_percent \<Rightarrow>
             (case nominal_power_of p nominal_setting data of
                None \<Rightarrow> data
              | Some nominal_power \<Rightarrow>
                 (case (load_percent, nominal_power) of
                    (Fin l, Fin n) \<Rightarrow>
                      if 0 < l \<and> 0 < n
                      then (let realpower = fdiv p (fmul p n l) 100;
                                s = py_str p (py_round2 p realpower)
                            in dict_set ''ups_realpower'' s (dict_set ''ups.realpower'' s data))
                      else data
                  | _ \<Rightarrow> data))))"

text \<open>The singleton \<open>UPSConfig\<close>.\<close>

record ups_config =
  host :: "string option"
  name :: "string option"
  command :: "string option"
  timeout :: "int option"

text \<open>\<open>not x\<close> for an optional string: it is \<open>None\<close> or empty.\<close>

definition py_not :: "string option \<Rightarrow> bool" where
  "py_not x = (x = None \<or> x = Some [])"

text \<open>What \<open>subprocess.run\<close> does: it raises, or completes with a return code, the lines
  of its standard output and its standard error.\<close>

datatype completed = RunRaises string | Completed int "string list" string

text \<open>\<open>s.strip()\<close>, for ASCII text.\<close>

definition is_space :: "char \<Rightarrow> bool" where
  "is_space c = (let n = of_char c :: nat in (9 \<le> n \<and> n \<le> 13) \<or> (28 \<le> n \<and> n \<le> 32))"

definition strip :: "string \<Rightarrow> string" where
  "strip s = rev (dropWhile is_space (rev (dropWhile is_space s)))"

text \<open>The loop over the output lines: \<open>key, value = line.split(':', 1)\<close>.\<close>

definition parse_lines :: "string list \<Rightarrow> string pydict" where
  "parse_lines ls =
     fold (\<lambda>line raw.
             if CHR '':'' \<in> set line
             then dict_set (strip (takeWhile (\<lambda>c. c \<noteq> CHR '':'') line))
                           (strip (tl (dropWhile (\<lambda>c. c \<noteq> CHR '':'') line))) raw
             else raw) ls []"

text \<open>The loop that turns the NUT keys into column names and the values into floats where
  \<open>float(value)\<close> does not raise.\<close>

definition transform_data :: "py \<Rightarrow> string pydict \<Rightarrow> pyval pydict" where
  "transform_data p raw =
     fold (\<lambda>(key, value) transformed.
             dict_set (dots_to_underscores key)
               (case py_float p value of Some x \<Rightarrow> pyval_of_flt x | None \<Rightarrow> PStr value)
               transformed) raw []"

text \<open>The sample returned when the UPS name or host is not configured.\<close>

definition placeholder_sample :: "pyval pydict" where
  "placeholder_sample =
     [(''ups_status'', PStr ''ERROR''), (''battery_charge'', PFloat 0), (''battery_runtime'', PInt 0),
      (''input_voltage'', PFloat 0), (''output_voltage'', PFloat 0)]"

text \<open>
  \<open>get_ups_data\<close>: \<open>run\<close> is \<open>subprocess.run\<close> applied to the command and the target.  The
  result is the configuration afterwards and either the message of the \<open>UPSDataError\<close>
  raised or the sample.
\<close>

definition get_ups_data ::
    "py \<Rightarrow> pyval \<Rightarrow> (string \<Rightarrow> string \<Rightarrow> completed) \<Rightarrow> ups_config
       \<Rightarrow> ups_config \<times> (string + pyval pydict)" where
  "get_ups_data p nominal_setting run cfg =
     (let cfg1 = (if py_not (command cfg) then cfg\<lparr>command := Some ''/usr/bin/upsc''\<rparr> else cfg)
      in if py_not (name cfg1) \<or> py_not (host cfg1) then (cfg1, Inr placeholder_sample)
         else case run (the (command cfg1)) (the (name cfg1) @ ''@'' @ the (host cfg1)) of
                RunRaises e \<Rightarrow> (cfg1, Inl (''Failed to get UPS data: '' @ e))
              | Completed returncode out err \<Rightarrow>
                  if returncode \<noteq> 0
                  then (cfg1, Inl (''Failed to get UPS data: Error connecting to UPS: '' @ err))
                  else (cfg1, Inr (transform_data p
                                     (calculate_realpower p nominal_setting (parse_lines out)))))"

text \<open>
  Concrete inputs for the reader: \<open>float\<close> and \<open>str\<close> on the literals used below (every other
  string is taken not to be a number), the float operations on the values used below
  (whole numbers and halves, where the float result is the exact one and rounding to two
  decimals changes nothing), a complete configuration, and outputs of the status command.
\<close>

definition py_demo :: py where
  "py_demo = \<lparr> py_float = (\<lambda>s. if s = ''0'' then Some (Fin 0)
                               else if s = ''50'' then Some (Fin 50)
                               else if s = ''100'' then Some (Fin 100)
                               else if s = ''400'' then Some (Fin 400)
                               else if s = ''200.0'' then Some (Fin 200)
                               else if s = ''500.0'' then Some (Fin 500)
                               else None),
               py_str = (\<lambda>x. if x = 200 then ''200.0'' else if x = 500 then ''500.0'' else ''?''),
               fmul = (\<lambda>a b. a * b), fdiv = (\<lambda>a b. a / b), fsub = (\<lambda>a b. a - b),
               fsum = sum_list, py_round2 = (\<lambda>x. x),
               np_mean = (\<lambda>xs. sum_list xs / of_nat (length xs)), np_round2 = (\<lambda>x. x),
               sql_avg = (\<lambda>xs. sum_list xs / of_nat (length xs)) \<rparr>"

definition cfg_demo :: ups_config where
  "cfg_demo = \<lparr> host = Some ''localhost'', name = Some ''ups1'', command = Some ''/usr/bin/upsc'',
                timeout = Some 10 \<rparr>"

definition out_load50 :: "string list" where
  "out_load50 = [''ups_load: 50'', ''ups_realpower_nominal: 400'']"

definition out_load0 :: "string list" where
  "out_load0 = [''ups.load: 0'', ''ups.realpower.nominal: 400'']"

definition out_zero :: "string list" where
  "out_zero = [''ups.load: 50'', ''ups.realpower.nominal: 400'', ''ups.realpower: 0'']"

definition out_fallback :: "string list" where
  "out_fallback = [''ups.load: 50'']"

text \<open>
  A second set of concrete operations, with the values binary floating point gives: the
  double nearest to 0.12 is \<open>1080863910568919 / 2^53\<close>, and \<open>round(0.125, 2)\<close> is that
  double; 100 times 0.125 and 12.5 divided by 100 are exact.
\<close>

definition double_0_12 :: rat where
  "double_0_12 = 1080863910568919 / 9007199254740992"

definition py_ieee :: py where
  "py_ieee = \<lparr> py_float = (\<lambda>s. if s = ''0.125'' then Some (Fin (1 / 8))
                               else if s = ''100'' then Some (Fin 100)
                               else if s = ''0.12'' then Some (Fin double_0_12)
                               else None),
               py_str = (\<lambda>x. if x = double_0_12 then ''0.12'' else ''?''),
               fmul = (\<lambda>a b. a * b), fdiv = (\<lambda>a b. a / b), fsub = (\<lambda>a b. a - b),
               fsum = sum_list, py_round2 = (\<lambda>x. if x = 1 / 8 then double_0_12 else x),
               np_mean = (\<lambda>xs. sum_list xs / of_nat (length xs)), np_round2 = (\<lambda>x. x),
               sql_avg = (\<lambda>xs. sum_list xs / of_nat (length xs)) \<rparr>"

definition out_load_eighth :: "string list" where
  "out_load_eighth = [''ups.load: 0.125'', ''ups.realpower.nominal: 100'']"

section \<open>Sample buffer and aggregator (core/db/ups/cache.py)\<close>

text \<open>
  The state of a \<open>UPSDataCache\<close>.  \<open>cache_size\<close> is the attribute \<open>size\<close>; the DataFrame
  \<open>df\<close> is the list of its rows, each row a dict from column name to value;
  \<open>last_daily_aggregation\<close> is a date as a day number.
\<close>

record ups_data_cache =
  cache_size :: int
  data :: "(time \<times> pyval pydict) list"
  df :: "pyval pydict list option"
  next_save_time :: "time option"
  next_hour :: "time option"
  hourly_data :: "(time \<times> pyval) list"
  last_daily_aggregation :: "int option"
  last_broadcast :: "pyval pydict option"

text \<open>\<open>UPSDataCache(size)\<close>\<close>

definition init_cache :: "int \<Rightarrow> ups_data_cache" where
  "init_cache n = \<lparr> cache_size = n, data = [], df = None, next_save_time = None,
                    next_hour = None, hourly_data = [], last_daily_aggregation = None,
                    last_broadcast = None \<rparr>"

text \<open>
  What surrounds the cache: the configured timezone as the UTC offset (in microseconds) in
  force at an instant, the attributes of the \<open>UPSDynamicData\<close> model, which database
  operations raise, and the text of \<open>datetime.now().isoformat()\<close>.
\<close>

record cache_env =
  tz :: "time \<Rightarrow> int"
  has_attr :: "string \<Rightarrow> bool"
  hour_query_raises :: bool
  persist_raises :: bool
  daily_raises :: bool
  now_iso :: string

text \<open>The table of aggregate records; a record is the dict of its attributes.\<close>

type_synonym aggregate_table = "pyval pydict list"

definition get_next_minute :: "cache_env \<Rightarrow> time \<Rightarrow> time" where
  "get_next_minute env current_time =
     (let local_time = current_time + tz env current_time
      in (local_time - local_time mod MINUTE) + MINUTE - tz env current_time)"

definition get_next_hour :: "cache_env \<Rightarrow> time \<Rightarrow> time" where
  "get_next_hour env current_time =
     (let local_time = current_time + tz env current_time
      in (local_time - local_time mod HOUR) + HOUR - tz env current_time)"

subsection \<open>Broadcast\<close>

text \<open>Python's \<open>==\<close> on values, and on the results of \<open>dict.get\<close>.\<close>

fun py_eq :: "pyval \<Rightarrow> pyval \<Rightarrow> bool" where
  "py_eq (PInt i) (PInt j) = (i = j)"
| "py_eq (PInt i) (PFloat r) = (of_int i = r)"
| "py_eq (PFloat r) (PInt i) = (r = of_int i)"
| "py_eq (PFloat r) (PFloat s) = (r = s)"
| "py_eq (PStr s) (PStr t) = (s = t)"
| "py_eq (PTime s) (PTime t) = (s = t)"
| "py_eq _ _ = False"

fun py_eq_opt :: "pyval option \<Rightarrow> pyval option \<Rightarrow> bool" where
  "py_eq_opt None None = True"
| "py_eq_opt (Some a) (Some b) = py_eq a b"
| "py_eq_opt _ _ = False"

text \<open>\<open>v or 0\<close>\<close>

fun or_zero :: "pyval \<Rightarrow> pyval" where
  "or_zero (PInt i) = PInt i"
| "or_zero (PFloat r) = (if r = 0 then PInt 0 else PFloat r)"
| "or_zero (PStr s) = (if s = [] then PInt 0 else PStr s)"
| "or_zero v = v"

text \<open>\<open>abs(current_val - last_val) >= 1.0\<close>; a comparison with NaN is false.\<close>

fun differ_by_one :: "py \<Rightarrow> flt \<Rightarrow> flt \<Rightarrow> bool" where
  "differ_by_one p (Fin a) (Fin b) = (1 \<le> \<bar>fsub p a b\<bar>)"
| "differ_by_one p _ _ = False"

definition important_metrics :: "string list" where
  "important_metrics = [''ups_load'', ''battery_charge'', ''ups_realpower'', ''input_voltage'']"

text \<open>
  The loop over the watch list: a metric that both dicts have counts when the two values
  differ by at least one, or when \<open>float\<close> raises on one of them; the loop stops there.
\<close>

fun significant_change :: "py \<Rightarrow> pyval pydict \<Rightarrow> pyval pydict \<Rightarrow> string list \<Rightarrow> bool" where
  "significant_change p broadcast_data prev [] = False"
| "significant_change p broadcast_data prev (metric # ms) =
     (case (map_of broadcast_data metric, map_of prev metric) of
        (Some c, Some l) \<Rightarrow>
          (case (float_of p (or_zero c), float_of p (or_zero l)) of
             (Some current_val, Some last_val) \<Rightarrow>
               if differ_by_one p current_val last_val then True
               else significant_change p broadcast_data prev ms
           | _ \<Rightarrow> True)
      | _ \<Rightarrow> significant_change p broadcast_data prev ms)"

text \<open>
  \<open>broadcast_cache_update\<close>: the cache afterwards and the messages handed to the
  websocket's \<open>emit\<close>.  An \<open>emit\<close> that raises is caught, after \<open>last_broadcast\<close> has been
  set, and changes nothing else.
\<close>

definition broadcast_cache_update ::
    "cache_env \<Rightarrow> py \<Rightarrow> ups_data_cache \<Rightarrow> pyval pydict \<Rightarrow> ups_data_cache \<times> pyval pydict list" where
  "broadcast_cache_update env p cache d =
     (if d = [] then (cache, [])
      else
        (let broadcast_data = dict_merge [(''timestamp'', PStr (now_iso env))] d;
             skip = (case last_broadcast cache of
                       None \<Rightarrow> False
                     | Some prev \<Rightarrow>
                         if prev = [] then False
                         else
                           (let status_changed =
                                  \<not> py_eq_opt (map_of broadcast_data ''ups_status'')
                                               (map_of prev ''ups_status'');
                                significant = significant_change p broadcast_data prev important_metrics
                            in \<not> status_changed \<and> \<not> significant))
         in if skip then (cache, [])
            else (cache\<lparr>last_broadcast := Some broadcast_data\<rparr>,
                  [broadcast_data])))"

subsection \<open>Buffering\<close>

text \<open>The row \<open>{'timestamp': ts, **d}\<close> of the DataFrame.\<close>

definition df_row :: "time \<times> pyval pydict \<Rightarrow> pyval pydict" where
  "df_row x = dict_merge [(''timestamp'', PTime (fst x))] (snd x)"

text \<open>\<open>add\<close>: the cache afterwards and the messages broadcast.\<close>

definition add ::
    "cache_env \<Rightarrow> py \<Rightarrow> ups_data_cache \<Rightarrow> time \<Rightarrow> pyval pydict
       \<Rightarrow> ups_data_cache \<times> pyval pydict list" where
  "add env p cache timestamp d =
     (let cache1 = (if next_save_time cache = None
                    then cache\<lparr>next_save_time := Some (get_next_minute env timestamp)\<rparr> else cache);
          formatted_data = fold (\<lambda>(key, value). dict_set (dots_to_underscores key) value) d [];
          data1 = data cache1 @ [(timestamp, formatted_data)];
          cache2 = cache1\<lparr>data := data1, df := Some (map df_row data1)\<rparr>
      in broadcast_cache_update env p cache2 formatted_data)"

definition is_save_time :: "ups_data_cache \<Rightarrow> time \<Rightarrow> bool" where
  "is_save_time cache current_time =
     (case next_save_time cache of
        None \<Rightarrow> False
      | Some nst \<Rightarrow>
          if nst \<le> current_time then True
          else if cache_size cache \<le> int (length (data cache)) then True
          else False)"

subsection \<open>Averaging\<close>

text \<open>The columns of a DataFrame built from rows: the keys in the order of first appearance.\<close>

definition columns :: "pyval pydict list \<Rightarrow> string list" where
  "columns rows = rev (remdups (rev (concat (map (map fst) rows))))"

text \<open>A cell; a row that lacks the column has NaN there.\<close>

definition cell :: "pyval pydict \<Rightarrow> string \<Rightarrow> pyval" where
  "cell row c = (case map_of row c of None \<Rightarrow> PNaN | Some v \<Rightarrow> v)"

text \<open>A column has a numeric dtype when every cell is an int, a float or NaN.\<close>

fun is_number :: "pyval \<Rightarrow> bool" where
  "is_number (PInt _) = True"
| "is_number (PFloat _) = True"
| "is_number PNaN = True"
| "is_number _ = False"

definition numeric_col :: "pyval pydict list \<Rightarrow> string \<Rightarrow> bool" where
  "numeric_col rows c = list_all (\<lambda>row. is_number (cell row c)) rows"

fun number_of :: "pyval \<Rightarrow> rat option" where
  "number_of (PInt i) = Some (of_int i)"
| "number_of (PFloat r) = Some r"
| "number_of _ = None"

text \<open>The numbers of a column, NaN cells left out (\<open>mean\<close> skips them).\<close>

definition col_numbers :: "pyval pydict list \<Rightarrow> string \<Rightarrow> rat list" where
  "col_numbers rows c = List.map_filter (\<lambda>row. number_of (cell row c)) rows"

text \<open>\<open>mean().round(2)\<close> of a numeric column.\<close>

definition col_mean :: "py \<Rightarrow> pyval pydict list \<Rightarrow> string \<Rightarrow> pyval" where
  "col_mean p rows c =
     (let xs = col_numbers rows c
      in if xs = [] then PNaN else PFloat (np_round2 p (np_mean p xs)))"

definition calculate_averages :: "py \<Rightarrow> ups_data_cache \<Rightarrow> pyval pydict option" where
  "calculate_averages p cache =
     (case df cache of
        None \<Rightarrow> None
      | Some rows \<Rightarrow>
          if rows = [] \<or> columns rows = [] then None
          else
            (let numeric_cols = filter (numeric_col rows) (columns rows);
                 non_numeric_cols = filter (\<lambda>c. c \<noteq> ''timestamp'')
                                      (filter (\<lambda>c. \<not> numeric_col rows c) (columns rows));
                 averages = map (\<lambda>c. (c, col_mean p rows c)) numeric_cols;
                 last_values = map (\<lambda>c. (c, cell (last rows) c)) non_numeric_cols
             in Some (averages @ last_values)))"

text \<open>
  The claim's words for a non-numeric column, "the most recently buffered value": the value
  of the column in the last buffered sample that has one.
\<close>

definition most_recently_buffered :: "pyval pydict list \<Rightarrow> string \<Rightarrow> pyval option" where
  "most_recently_buffered rows c =
     (case List.map_filter (\<lambda>row. map_of row c) (rev rows) of [] \<Rightarrow> None | v # _ \<Rightarrow> Some v)"

text \<open>Concrete surroundings and buffers: UTC, a model with the usual columns, no failures.\<close>

definition env_c :: cache_env where
  "env_c = \<lparr> tz = (\<lambda>_. 0),
             has_attr = (\<lambda>k. k \<in> set [''timestamp_tz'', ''ups_status'', ''ups_load'', ''battery_charge'',
                                        ''battery_runtime'', ''input_voltage'', ''output_voltage'',
                                        ''ups_realpower'', ''ups_realpower_nominal'',
                                        ''ups_realpower_hrs'', ''ups_realpower_days'']),
             hour_query_raises = False, persist_raises = False, daily_raises = False,
             now_iso = ''2026-01-01T00:00:00'' \<rparr>"

definition rows_load42 :: "pyval pydict list" where
  "rows_load42 = [[(''timestamp'', PTime 1000000000), (''ups_load'', PFloat 42)]]"

definition rows_alarm :: "pyval pydict list" where
  "rows_alarm = [[(''timestamp'', PTime 1000000000), (''ups_status'', PStr ''OL''),
                  (''ups_alarm'', PStr ''Replace battery!'')],
                 [(''timestamp'', PTime 1001000000), (''ups_status'', PStr ''OL'')]]"

definition cache_load42 :: ups_data_cache where
  "cache_load42 = fst (add env_c py_demo (init_cache 60) 1000000000 [(''ups_load'', PFloat 42)])"

definition cache_alarm :: ups_data_cache where
  "cache_alarm =
     fst (add env_c py_demo
            (fst (add env_c py_demo (init_cache 60) 1000000000
                    [(''ups_status'', PStr ''OL''), (''ups_alarm'', PStr ''Replace battery!'')]))
            1001000000 [(''ups_status'', PStr ''OL'')])"

text \<open>
  The claim's words for a watch-list metric that "changed by 1 unit or more": both dicts
  have it, both values are numbers, and they differ by at least one.
\<close>

definition metric_changed_by_one :: "py \<Rightarrow> pyval pydict \<Rightarrow> pyval pydict \<Rightarrow> string \<Rightarrow> bool" where
  "metric_changed_by_one p new_data old_data metric =
     (case (map_of new_data metric, map_of old_data metric) of
        (Some c, Some l) \<Rightarrow>
          (case (float_of p (or_zero c), float_of p (or_zero l)) of
             (Some a, Some b) \<Rightarrow> differ_by_one p a b
           | _ \<Rightarrow> False)
      | _ \<Rightarrow> False)"

text \<open>The payload of a broadcast, and a sample whose load is not a number.\<close>

definition payload :: "cache_env \<Rightarrow> pyval pydict \<Rightarrow> pyval pydict" where
  "payload env d = dict_merge [(''timestamp'', PStr (now_iso env))] d"

definition sample_na :: "pyval pydict" where
  "sample_na = [(''ups_status'', PStr ''OL''), (''ups_load'', PStr ''n/a'')]"

definition sample_ol :: "rat \<Rightarrow> pyval pydict" where
  "sample_ol x = [(''ups_status'', PStr ''OL''), (''ups_load'', PFloat x)]"

definition cache_ol50 :: ups_data_cache where
  "cache_ol50 = fst (add env_c py_demo (init_cache 60) 1000000000 (sample_ol 50))"

text \<open>The doubles nearest to 0.4 and to 1.4; their difference, \<open>(2^53 - 1) / 2^53\<close>, is a
  double too, so the float subtraction gives exactly it.\<close>

definition double_0_4 :: rat where
  "double_0_4 = 3602879701896397 / 9007199254740992"

definition double_1_4 :: rat where
  "double_1_4 = 3152519739159347 / 2251799813685248"

definition cache_ol04 :: ups_data_cache where
  "cache_ol04 = fst (add env_c py_demo (init_cache 60) 1000000000 (sample_ol double_0_4))"

definition cache_na :: ups_data_cache where
  "cache_na = fst (add env_c py_demo (init_cache 60) 1000000000 sample_na)"

subsection \<open>Minute flush\<close>

text \<open>The loop that copies the averages onto the new record: \<open>hasattr\<close>, then \<open>setattr\<close>.\<close>

definition set_averages :: "cache_env \<Rightarrow> pyval pydict \<Rightarrow> pyval pydict \<Rightarrow> pyval pydict" where
  "set_averages env averages record =
     fold (\<lambda>(key, value) r. if has_attr env key then dict_set key value r else r) averages record"

definition critical_fields :: "string list" where
  "critical_fields = [''ups_status'', ''ups_load'', ''ups_realpower'', ''ups_realpower_nominal'']"

text \<open>The second pass over the critical fields: one that is still \<open>None\<close> on the record is
  set from the averages.\<close>

definition fix_critical :: "cache_env \<Rightarrow> pyval pydict \<Rightarrow> pyval pydict \<Rightarrow> pyval pydict" where
  "fix_critical env averages record =
     fold (\<lambda>field r.
             if has_attr env field
             then (case map_of r field of
                     None \<Rightarrow> (case map_of averages field of Some v \<Rightarrow> dict_set field v r | None \<Rightarrow> r)
                   | Some _ \<Rightarrow> r)
             else r) critical_fields record"

text \<open>The records whose \<open>timestamp_tz\<close> lies in \<open>[start, start + length)\<close>.\<close>

definition rows_between :: "aggregate_table \<Rightarrow> time \<Rightarrow> int \<Rightarrow> aggregate_table" where
  "rows_between table start len =
     filter (\<lambda>d. case map_of d ''timestamp_tz'' of
                   Some (PTime t) \<Rightarrow> start \<le> t \<and> t < start + len
                 | _ \<Rightarrow> False) table"

text \<open>
  \<open>round(sum(powers) / len(powers), 2)\<close> for a non-empty list: \<open>None\<close> when the sum raises
  \<open>TypeError\<close> (a value that is not a number), NaN when a NaN is among the values.
\<close>

definition mean_round2 :: "py \<Rightarrow> pyval list \<Rightarrow> pyval option" where
  "mean_round2 p powers =
     (if \<not> list_all is_number powers then None
      else if PNaN \<in> set powers then Some PNaN
      else Some (PFloat (py_round2 p (fdiv p (fsum p (List.map_filter number_of powers))
                                            (of_nat (length powers))))))"

text \<open>
  The hourly part of the flush, entered when the averages have \<open>ups_realpower\<close>.  The
  result is the cache and the record, or \<open>None\<close> for the record when something raised; the
  cache keeps what was changed before.
\<close>

definition hourly_step ::
    "cache_env \<Rightarrow> py \<Rightarrow> ups_data_cache \<Rightarrow> aggregate_table \<Rightarrow> pyval pydict \<Rightarrow> time \<Rightarrow> pyval pydict
       \<Rightarrow> time \<Rightarrow> ups_data_cache \<times> pyval pydict option" where
  "hourly_step env p cache table averages nst record current_time =
     (case map_of averages ''ups_realpower'' of
        None \<Rightarrow> (cache, Some record)
      | Some realpower \<Rightarrow>
          (let cache1 = cache\<lparr>hourly_data := hourly_data cache @ [(nst, realpower)]\<rparr>
           in case next_hour cache1 of
                None \<Rightarrow> (cache1, None)
              | Some nh \<Rightarrow>
                  if nh \<le> current_time
                  then if hour_query_raises env then (cache1, None)
                       else
                         (let exact_hour = nh - HOUR;
                              hour_data = rows_between table exact_hour HOUR;
                              powers = List.map_filter (\<lambda>d. map_of d ''ups_realpower'') hour_data;
                              cache2 = cache1\<lparr>hourly_data := [],
                                              next_hour := Some (get_next_hour env current_time)\<rparr>
                          in if hour_data \<noteq> [] \<and> powers \<noteq> []
                             then (case mean_round2 p powers of
                                     None \<Rightarrow> (cache1, None)
                                   | Some avg \<Rightarrow> (cache2, Some (dict_set ''ups_realpower_hrs'' avg record)))
                             else (cache2, Some record))
                  else (cache1, Some record)))"

text \<open>\<open>should_aggregate_daily\<close>: the answer and the cache with the date marker.\<close>

definition should_aggregate_daily :: "cache_env \<Rightarrow> ups_data_cache \<Rightarrow> time \<Rightarrow> bool \<times> ups_data_cache" where
  "should_aggregate_daily env cache current_time =
     (let local_time = current_time + tz env current_time;
          today = local_time div DAY
      in if local_time mod DAY < MINUTE \<and> last_daily_aggregation cache \<noteq> Some today
         then (True, cache\<lparr>last_daily_aggregation := Some today\<rparr>)
         else (False, cache))"

text \<open>
  \<open>aggregate_daily_data\<close>: the mean of the hourly averages of the day before, stored as a
  new record.  \<open>replace(hour=0, minute=0, second=0)\<close> keeps the microseconds.  Every
  exception is caught and the session rolled back.
\<close>

definition aggregate_daily_data ::
    "cache_env \<Rightarrow> py \<Rightarrow> aggregate_table \<Rightarrow> time \<Rightarrow> aggregate_table" where
  "aggregate_daily_data env p table current_time =
     (if daily_raises env then table
      else
        (let local_time = current_time + tz env current_time;
             aggregation_time = current_time - local_time mod DAY + local_time mod SECOND;
             hrs = List.map_filter (\<lambda>d. case map_of d ''ups_realpower_hrs'' of
                                           Some v \<Rightarrow> number_of v | None \<Rightarrow> None)
                     (rows_between table (aggregation_time - DAY) DAY)
         in if hrs = [] then table
            else (let daily_data = sql_avg p hrs
                  in if daily_data = 0 then table
                     else table @ [[(''timestamp_tz'', PTime (aggregation_time - DAY)),
                                    (''ups_realpower_days'', PFloat (py_round2 p daily_data))]])))"

text \<open>
  \<open>calculate_and_save_averages\<close>: the returned flag, the cache and the table of aggregate
  records afterwards.  Every exception inside is caught and answered with \<open>False\<close>.
\<close>

definition calculate_and_save_averages ::
    "cache_env \<Rightarrow> py \<Rightarrow> ups_data_cache \<Rightarrow> aggregate_table \<Rightarrow> time
       \<Rightarrow> bool \<times> ups_data_cache \<times> aggregate_table" where
  "calculate_and_save_averages env p cache table current_time =
     (let cache0 = (if next_hour cache = None
                    then cache\<lparr>next_hour := Some (get_next_hour env current_time)\<rparr> else cache)
      in if \<not> is_save_time cache0 current_time then (False, cache0, table)
         else case calculate_averages p cache0 of
                None \<Rightarrow> (False, cache0, table)
              | Some averages \<Rightarrow>
                  if averages = [] then (False, cache0, table)
                  else case next_save_time cache0 of
                         None \<Rightarrow> (False, cache0, table)
                       | Some nst \<Rightarrow>
                           (let record0 = fix_critical env averages
                                            (set_averages env averages [(''timestamp_tz'', PTime nst)])
                            in case hourly_step env p cache0 table averages nst record0 current_time of
                                 (cache1, None) \<Rightarrow> (False, cache1, table)
                               | (cache1, Some record) \<Rightarrow>
                                   if persist_raises env then (False, cache1, table)
                                   else
                                     (let table1 = table @ [record];
                                          cache2 = cache1\<lparr>data := [], df := None,
                                                     next_save_time := Some (get_next_minute env current_time)\<rparr>;
                                          daily = should_aggregate_daily env cache2 current_time
                                      in (True, snd daily,
                                          if fst daily then aggregate_daily_data env p table1 current_time
                                          else table1))))"

subsection \<open>One polling cycle (\<open>save_ups_data\<close>)\<close>

text \<open>The adjustment of the buffer size to the polling interval.\<close>

definition adjust_size :: "int \<Rightarrow> int \<Rightarrow> ups_data_cache \<Rightarrow> ups_data_cache" where
  "adjust_size CACHE_SECONDS polling_interval cache =
     (if 1 < polling_interval
      then (let target_buffer_size = max 5 (int_trunc_div CACHE_SECONDS polling_interval)
            in if cache_size cache \<noteq> target_buffer_size
               then cache\<lparr>cache_size := target_buffer_size\<rparr> else cache)
      else cache)"

text \<open>
  \<open>save_ups_data\<close>: \<open>polling_interval\<close> is what the configuration lookup gave (1 when it is
  missing or raises), \<open>now\<close> the clock.  The result is the returned pair, the configuration,
  the cache, the table and the broadcasts.
\<close>

definition save_ups_data ::
    "cache_env \<Rightarrow> py \<Rightarrow> pyval \<Rightarrow> (string \<Rightarrow> string \<Rightarrow> completed) \<Rightarrow> int \<Rightarrow> int \<Rightarrow> time
       \<Rightarrow> ups_config \<Rightarrow> ups_data_cache \<Rightarrow> aggregate_table
       \<Rightarrow> (bool \<times> string option) \<times> ups_config \<times> ups_data_cache \<times> aggregate_table \<times> pyval pydict list" where
  "save_ups_data env p nominal_setting run CACHE_SECONDS polling_interval now cfg cache table =
     (let cache1 = adjust_size CACHE_SECONDS polling_interval cache
      in case get_ups_data p nominal_setting run cfg of
           (cfg1, Inl e) \<Rightarrow> ((False, Some (''Error saving data: '' @ e)), cfg1, cache1, table, [])
         | (cfg1, Inr sample) \<Rightarrow>
             (let added = add env p cache1 now sample;
                  saved = calculate_and_save_averages env p (fst added) table now
              in ((True, None), cfg1, fst (snd saved), snd (snd saved), snd added)))"

text \<open>The first step of \<open>calculate_and_save_averages\<close> on its own: \<open>next_hour\<close> is
  initialised when it is still \<open>None\<close>.\<close>

definition with_next_hour :: "cache_env \<Rightarrow> ups_data_cache \<Rightarrow> time \<Rightarrow> ups_data_cache" where
  "with_next_hour env c t =
     (if next_hour c = None then c\<lparr>next_hour := Some (get_next_hour env t)\<rparr> else c)"





text \<open>Successive calls of \<open>add\<close>, one for each timestamped sample of a list.\<close>

fun add_all :: "cache_env \<Rightarrow> py \<Rightarrow> ups_data_cache \<Rightarrow> (time \<times> pyval pydict) list \<Rightarrow> ups_data_cache" where
  "add_all env p c [] = c"
| "add_all env p c (x # xs) = add_all env p (fst (add env p c (fst x) (snd x))) xs"

text \<open>The cache and the table in the result of \<open>save_ups_data\<close>.\<close>

definition cache_of ::
    "(bool \<times> string option) \<times> ups_config \<times> ups_data_cache \<times> aggregate_table \<times> pyval pydict list
       \<Rightarrow> ups_data_cache" where
  "cache_of r = fst (snd (snd r))"

definition table_of ::
    "(bool \<times> string option) \<times> ups_config \<times> ups_data_cache \<times> aggregate_table \<times> pyval pydict list
       \<Rightarrow> aggregate_table" where
  "table_of r = fst (snd (snd (snd r)))"

text \<open>Sixty samples, one per second from second 1020 (the start of a minute) to second
  1079, and a status command that always reports a load of 50.\<close>

definition sixty_samples :: "(time \<times> pyval pydict) list" where
  "sixty_samples = map (\<lambda>i. (1020000000 + int i * SECOND, sample_ol 50)) [0..<60]"

definition run_demo :: "string \<Rightarrow> string \<Rightarrow> completed" where
  "run_demo c t = Completed 0 out_load50 []"

text \<open>A configuration without a host.\<close>

definition cfg_nohost :: ups_config where
  "cfg_nohost = cfg_demo\<lparr>host := None\<rparr>"

text \<open>A buffer that holds one sample of a UPS on line power with a charge of 100.\<close>

definition sample_charge :: "pyval pydict" where
  "sample_charge = [(''ups_status'', PStr ''OL''), (''battery_charge'', PFloat 100)]"

definition cache_charge :: ups_data_cache where
  "cache_charge = fst (add env_c py_demo (init_cache 60) 1000000000 sample_charge)"

text \<open>A polling cycle with a 60 second window and a polling interval of 2 seconds.\<close>

definition cycle_interval2 ::
    "(bool \<times> string option) \<times> ups_config \<times> ups_data_cache \<times> aggregate_table \<times> pyval pydict list" where
  "cycle_interval2 =
     save_ups_data env_c py_demo (PInt 1000) run_demo 60 2 1000000000 cfg_demo (init_cache 60) []"

section \<open>Properties of the event store\<close>

lemma open_events_append: "open_events (xs @ ys) u = open_events xs u @ open_events ys u"
  by (simp add: open_events_def)

lemma open_events_closed:
  "open_events (map (\<lambda>e. if is_open_for u e then e\<lparr>timestamp_tz_end := Some t\<rparr> else e) db) u'
     = (if u' = u then [] else open_events db u')"
  by (induction db) (auto simp: open_events_def is_open_for_def)

lemma at_most_one_open_iff: "at_most_one_open db \<longleftrightarrow> (\<forall>u. length (open_events db u) \<le> 1)"
proof -
  have "open_events db u = []" if "u \<notin> set (map ups_name db)" for u
    using that by (auto simp: open_events_def is_open_for_def filter_empty_conv)
  then show ?thesis
    unfolding at_most_one_open_def by (metis list.size(3) zero_le)
qed

lemma close_previous_done:
  assumes "\<not> query_raises f" and "close_commit_raises f \<longrightarrow> open_events db u = []"
  shows "snd (close_previous_events f u t db)
           = map (\<lambda>e. if is_open_for u e then e\<lparr>timestamp_tz_end := Some t\<rparr> else e) db"
  using assms by (auto simp: close_previous_events_def Let_def)

lemma close_previous_failed:
  assumes "query_raises f \<or> (close_commit_raises f \<and> open_events db u \<noteq> [])"
  shows "snd (close_previous_events f u t db) = db"
  using assms by (auto simp: close_previous_events_def Let_def)

lemma insert_event_result:
  "insert_event f now ip u ty db
     = (\<not> insert_raises f,
        db @ (if insert_raises f then [] else [new_event (next_event_id db) now u ty ip]))"
  by (simp add: insert_event_def)

lemma open_events_new_event:
  "open_events [new_event i t u ty ip] u' = (if u' = u then [new_event i t u ty ip] else [])"
  by (simp add: open_events_def is_open_for_def new_event_def)

lemma store_event_result:
  assumes "store_event_in_database f clock ip u ty db = (ok, db')"
  shows "ok = (\<not> insert_raises f)"
    and "db' = snd (close_previous_events f u (replace_microsecond0 clock) db)
               @ (if ok then [new_event (next_event_id
                                 (snd (close_previous_events f u (replace_microsecond0 clock) db)))
                               (replace_microsecond0 clock) u ty ip] else [])"
  using assms by (auto simp: store_event_in_database_def Let_def insert_event_result)

lemma close_previous_length:
  "length (snd (close_previous_events f u t db)) = length db"
  by (simp add: close_previous_events_def Let_def)

lemma close_previous_other:
  "u' \<noteq> u \<Longrightarrow> open_events (snd (close_previous_events f u t db)) u' = open_events db u'"
  by (simp add: close_previous_events_def Let_def open_events_closed)

text \<open>
  Claim C1, as the code has it, for one call of \<open>store_event_in_database\<close> that no other
  recording interrupts.  The call answers whether adding the new row succeeded; if it did,
  the new row comes last, begins at the clock with the microseconds cut off, has no end
  timestamp and is not acknowledged.  The open events of the other UPSs are unchanged.
  When neither the lookup of the open events nor the commit of their end timestamps raises
  (the commit is only made when there is an open event), every open event of the UPS gets
  the new event's begin timestamp as its end and every other row stays as it is; then the
  new row is the only open event of the UPS, or the UPS has none if the insert failed, and
  a table with at most one open event per UPS stays so.  When the lookup or that commit
  raises, no row is changed and the open events of the UPS are the old ones and, if the
  insert succeeded, the new row.
\<close>

theorem store_event_bracketing:
  assumes "store_event_in_database f clock ip u ty db = (ok, db')"
  shows "ok = (\<not> insert_raises f)
       \<and> length db' = length db + (if ok then 1 else 0)
       \<and> (ok \<longrightarrow> last db' = new_event (next_event_id (butlast db')) (replace_microsecond0 clock) u ty ip
                \<and> timestamp_tz_begin (last db') = Some (replace_microsecond0 clock)
                \<and> timestamp_tz_end (last db') = None \<and> acknowledged (last db') = False)
       \<and> (\<forall>u'. u' \<noteq> u \<longrightarrow> open_events db' u' = open_events db u')
       \<and> (\<not> query_raises f \<and> (close_commit_raises f \<longrightarrow> open_events db u = []) \<longrightarrow>
            (\<forall>i<length db. db' ! i =
               (if is_open_for u (db ! i)
                then (db ! i)\<lparr>timestamp_tz_end := Some (replace_microsecond0 clock)\<rparr> else db ! i))
            \<and> (ok \<longrightarrow> open_events db' u = [last db'])
            \<and> (\<not> ok \<longrightarrow> open_events db' u = [])
            \<and> (at_most_one_open db \<longrightarrow> at_most_one_open db'))
       \<and> (query_raises f \<or> (close_commit_raises f \<and> open_events db u \<noteq> []) \<longrightarrow>
            take (length db) db' = db
            \<and> open_events db' u = open_events db u @ (if ok then [last db'] else []))"
proof -
  let ?now = "replace_microsecond0 clock"
  let ?cl = "snd (close_previous_events f u ?now db)"
  let ?new = "new_event (next_event_id ?cl) ?now u ty ip"
  note r = store_event_result [OF assms]
  have ok: "ok = (\<not> insert_raises f)" by (rule r(1))
  have db': "db' = ?cl @ (if ok then [?new] else [])" by (rule r(2))
  have len: "length ?cl = length db" by (rule close_previous_length)
  have c2: "length db' = length db + (if ok then 1 else 0)"
    by (simp add: db' len)
  have lst: "last db' = ?new" "butlast db' = ?cl" if ok
    using that by (simp_all add: db')
  have c3: "ok \<longrightarrow> last db' = new_event (next_event_id (butlast db')) ?now u ty ip
                \<and> timestamp_tz_begin (last db') = Some ?now
                \<and> timestamp_tz_end (last db') = None \<and> acknowledged (last db') = False"
  proof
    assume ok
    have fl: "timestamp_tz_begin ?new = Some ?now" "timestamp_tz_end ?new = None"
      "acknowledged ?new = False"
      by (simp_all add: new_event_def)
    show "last db' = new_event (next_event_id (butlast db')) ?now u ty ip
                \<and> timestamp_tz_begin (last db') = Some ?now
                \<and> timestamp_tz_end (last db') = None \<and> acknowledged (last db') = False"
      unfolding lst [OF \<open>ok\<close>] using fl by simp
  qed
  have opn: "open_events db' u' = open_events ?cl u' @ (if ok \<and> u' = u then [?new] else [])" for u'
    by (simp add: db' open_events_append open_events_new_event) (simp add: open_events_def)
  have c4: "\<forall>u'. u' \<noteq> u \<longrightarrow> open_events db' u' = open_events db u'"
    by (simp add: opn close_previous_other)
  have c5: "(\<forall>i<length db. db' ! i =
               (if is_open_for u (db ! i) then (db ! i)\<lparr>timestamp_tz_end := Some ?now\<rparr> else db ! i))
            \<and> (ok \<longrightarrow> open_events db' u = [last db'])
            \<and> (\<not> ok \<longrightarrow> open_events db' u = [])
            \<and> (at_most_one_open db \<longrightarrow> at_most_one_open db')"
    if q: "\<not> query_raises f" and c: "close_commit_raises f \<longrightarrow> open_events db u = []"
  proof -
    have cl: "?cl = map (\<lambda>e. if is_open_for u e then e\<lparr>timestamp_tz_end := Some ?now\<rparr> else e) db"
      by (rule close_previous_done [OF q c])
    have a: "\<forall>i<length db. db' ! i =
               (if is_open_for u (db ! i) then (db ! i)\<lparr>timestamp_tz_end := Some ?now\<rparr> else db ! i)"
      unfolding db' cl by (simp add: nth_append)
    have o: "open_events ?cl u' = (if u' = u then [] else open_events db u')" for u'
      unfolding cl by (rule open_events_closed)
    have b: "ok \<longrightarrow> open_events db' u = [last db']"
      using lst(1) by (simp add: opn o)
    have d: "\<not> ok \<longrightarrow> open_events db' u = []"
      by (simp add: opn o)
    have e: "at_most_one_open db \<longrightarrow> at_most_one_open db'"
      unfolding at_most_one_open_iff by (simp add: opn o)
    from a b d e show ?thesis by blast
  qed
  have c6: "take (length db) db' = db
            \<and> open_events db' u = open_events db u @ (if ok then [last db'] else [])"
    if "query_raises f \<or> (close_commit_raises f \<and> open_events db u \<noteq> [])"
  proof -
    have cl: "?cl = db" by (rule close_previous_failed [OF that])
    have a: "take (length db) db' = db"
      unfolding db' cl by simp
    have b: "open_events db' u = open_events db u @ (if ok then [last db'] else [])"
      using lst(1) by (simp add: opn cl)
    from a b show ?thesis by blast
  qed
  show ?thesis
    using ok c2 c3 c4 c5 c6 by blast
qed

lemma store_online_no_faults:
  "store_event_in_database no_faults 1300250000 (Some ''10.0.0.1'') ''ups1'' ''ONLINE'' [ev0]
     = (True, [ev0\<lparr>timestamp_tz_end := Some 1300000000\<rparr>,
               new_event 2 1300000000 ''ups1'' ''ONLINE'' (Some ''10.0.0.1'')])"
  by (simp add: store_event_in_database_def close_previous_events_def insert_event_def Let_def
      replace_microsecond0_def SECOND_def is_open_for_def ev0_def new_event_def next_event_id_def
      open_events_def no_faults_def)

lemma store_online_commit_fault:
  "store_event_in_database commit_fault 1300250000 (Some ''10.0.0.1'') ''ups1'' ''ONLINE'' [ev0]
     = (True, [ev0, new_event 2 1300000000 ''ups1'' ''ONLINE'' (Some ''10.0.0.1'')])"
  by (simp add: store_event_in_database_def close_previous_events_def insert_event_def Let_def
      replace_microsecond0_def SECOND_def is_open_for_def ev0_def new_event_def next_event_id_def
      open_events_def commit_fault_def)

lemma open_events_ev0: "open_events [ev0] ''ups1'' = [ev0]"
  by (simp add: open_events_def is_open_for_def ev0_def new_event_def)

theorem store_event_bracketing_witness:
  "store_event_in_database no_faults 1300250000 (Some ''10.0.0.1'') ''ups1'' ''ONLINE'' [ev0]
     = (True, [ev0\<lparr>timestamp_tz_end := Some 1300000000\<rparr>,
               new_event 2 1300000000 ''ups1'' ''ONLINE'' (Some ''10.0.0.1'')])
   \<and> at_most_one_open [ev0]
   \<and> at_most_one_open [ev0\<lparr>timestamp_tz_end := Some 1300000000\<rparr>,
               new_event 2 1300000000 ''ups1'' ''ONLINE'' (Some ''10.0.0.1'')]
   \<and> store_event_in_database commit_fault 1300250000 (Some ''10.0.0.1'') ''ups1'' ''ONLINE'' [ev0]
     = (True, [ev0, new_event 2 1300000000 ''ups1'' ''ONLINE'' (Some ''10.0.0.1'')])
   \<and> take (length [ev0]) [ev0, new_event 2 1300000000 ''ups1'' ''ONLINE'' (Some ''10.0.0.1'')] = [ev0]"
proof -
  have a: "at_most_one_open [ev0]"
    by (simp add: at_most_one_open_def open_events_def is_open_for_def ev0_def new_event_def)
  have q: "\<not> query_raises no_faults \<and> (close_commit_raises no_faults \<longrightarrow> open_events [ev0] ''ups1'' = [])"
    by (simp add: no_faults_def)
  from store_event_bracketing [OF store_online_no_faults] q a
  have b: "at_most_one_open [ev0\<lparr>timestamp_tz_end := Some 1300000000\<rparr>,
               new_event 2 1300000000 ''ups1'' ''ONLINE'' (Some ''10.0.0.1'')]"
    by blast
  have r: "query_raises commit_fault \<or> (close_commit_raises commit_fault \<and> open_events [ev0] ''ups1'' \<noteq> [])"
    by (simp add: commit_fault_def open_events_ev0)
  from store_event_bracketing [OF store_online_commit_fault] r
  have c: "take (length [ev0]) [ev0, new_event 2 1300000000 ''ups1'' ''ONLINE'' (Some ''10.0.0.1'')] = [ev0]"
    by blast
  from store_online_no_faults a b store_online_commit_fault c show ?thesis by blast
qed

text \<open>
  The invariant as the claim states it, for every call and at any time, fails in three
  ways.  When the lookup inside \<open>close_previous_events\<close> raises, the exception is swallowed,
  nothing is closed and the new row is inserted all the same; likewise when the commit of
  the end timestamps raises; and when two recordings for one UPS both close before either
  inserts, both new rows stay open although no database operation failed.
\<close>

theorem open_event_invariant_counterexample:
  "at_most_one_open [ev0]
   \<and> \<not> at_most_one_open (snd (store_event_in_database query_fault
         1300250000 (Some ''10.0.0.1'') ''ups1'' ''ONLINE'' [ev0]))
   \<and> \<not> at_most_one_open (snd (store_event_in_database commit_fault
         1300250000 (Some ''10.0.0.1'') ''ups1'' ''ONLINE'' [ev0]))
   \<and> \<not> at_most_one_open (interleaved_recordings no_faults 1300250000 1300750000
         (Some ''10.0.0.1'') ''ups1'' ''LOWBATT'' ''ONLINE'' [ev0])"
  by (simp add: at_most_one_open_def store_event_in_database_def close_previous_events_def
      insert_event_def interleaved_recordings_def Let_def replace_microsecond0_def SECOND_def
      is_open_for_def ev0_def new_event_def next_event_id_def open_events_def
      query_fault_def commit_fault_def no_faults_def)

subsection \<open>Duration of the time on battery\<close>

lemma duration_of_recent_closed_aware:
  "duration_of_recent_closed (Aware t) es \<in> {None, Some None}"
  by (induction es) (simp_all split: option.splits)

text \<open>
  Whatever the table holds, the ONLINE e-mail reports \<open>0 min\<close>: \<open>now\<close> is timezone-aware,
  the stored timestamps are naive, so the first subtraction that is reached raises and the
  handler leaves the default.
\<close>

lemma battery_duration_online_always_zero:
  "battery_duration_online raises db u clock = ''0 min''"
proof -
  have "duration_of_recent_closed (Aware clock) (closed_onbatt_events db u) = None
        \<or> duration_of_recent_closed (Aware clock) (closed_onbatt_events db u) = Some None"
    using duration_of_recent_closed_aware [of clock "closed_onbatt_events db u"] by simp
  then show ?thesis
    by (auto simp: battery_duration_online_def Let_def split: option.splits)
qed

lemma store_onbatt_demo:
  "store_event_in_database no_faults 2000000123 None ''ups1'' ''ONBATT'' [ev0] = (True, db1_demo)"
  by (simp add: store_event_in_database_def close_previous_events_def insert_event_def Let_def
      replace_microsecond0_def SECOND_def is_open_for_def ev0_def new_event_def next_event_id_def
      open_events_def db1_demo_def no_faults_def)

lemma store_online_demo:
  "store_event_in_database no_faults 2300999999 None ''ups1'' ''ONLINE'' db1_demo = (True, db2_demo)"
  by (simp add: store_event_in_database_def close_previous_events_def insert_event_def Let_def
      replace_microsecond0_def SECOND_def is_open_for_def ev0_def new_event_def next_event_id_def
      open_events_def db1_demo_def db2_demo_def no_faults_def)

text \<open>
  Claim C3 at a concrete input.  An ONBATT event of \<open>ups1\<close> is recorded at second 2000 and
  an ONLINE event of the same UPS 300 seconds later, with no database fault; the e-mail is
  built a second and a half after that.  The ONBATT row ends at second 2300 and the ONLINE
  row begins at second 2300, as the claim says, but the battery duration of the ONLINE
  e-mail is \<open>0 min\<close>, not \<open>5 min\<close>.
\<close>

theorem online_after_onbatt_reports_zero_minutes:
  "store_event_in_database no_faults 2000000123 None ''ups1'' ''ONBATT'' [ev0] = (True, db1_demo)
   \<and> store_event_in_database no_faults 2300999999 None ''ups1'' ''ONLINE'' db1_demo = (True, db2_demo)
   \<and> event_type (db2_demo ! 1) = ''ONBATT''
   \<and> timestamp_tz_begin (db2_demo ! 1) = Some (2000 * SECOND)
   \<and> timestamp_tz_end (db2_demo ! 1) = Some (2000 * SECOND + 300 * SECOND)
   \<and> event_type (last db2_demo) = ''ONLINE''
   \<and> timestamp_tz_begin (last db2_demo) = Some (2000 * SECOND + 300 * SECOND)
   \<and> battery_duration_online False db2_demo ''ups1'' 2301500000 = ''0 min''
   \<and> battery_duration_online False db2_demo ''ups1'' 2301500000 \<noteq> ''5 min''"
proof -
  have a: "event_type (db2_demo ! 1) = ''ONBATT''"
    "timestamp_tz_begin (db2_demo ! 1) = Some (2000 * SECOND)"
    "timestamp_tz_end (db2_demo ! 1) = Some (2000 * SECOND + 300 * SECOND)"
    "event_type (last db2_demo) = ''ONLINE''"
    "timestamp_tz_begin (last db2_demo) = Some (2000 * SECOND + 300 * SECOND)"
    by (simp_all add: db2_demo_def new_event_def SECOND_def)
  have b: "battery_duration_online False db2_demo ''ups1'' 2301500000 = ''0 min''"
    by (rule battery_duration_online_always_zero)
  then have c: "battery_duration_online False db2_demo ''ups1'' 2301500000 \<noteq> ''5 min''"
    by simp
  from store_onbatt_demo store_online_demo a b c show ?thesis by blast
qed

section \<open>Properties of the dispatch\<close>

lemma attempted_append: "attempted (xs @ ys) = attempted xs @ attempted ys"
  by (induction xs rule: attempted.induct) simp_all

lemma attempted_emails:
  "attempted (map (send_email_notification env) ns) = map Email ns"
  by (induction ns) (auto simp: send_email_notification_def split: sum.splits)

lemma attempted_ntfy:
  "attempted (concat (map (send_ntfy_notification env) ts)) = (if HAS_NTFY env then map Ntfy ts else [])"
  by (induction ts) (auto simp: send_ntfy_notification_def attempted_append split: sum.splits)

lemma attempted_webhook: "attempted [try_webhook env] = [Webhook]"
  by (auto simp: try_webhook_def split: sum.splits)

lemma process_fail:
  assumes "store_event_in_database f clock ip u ty db = (False, db1)"
  shows "process_ups_event f clock ip env u ty db = (False, db1, [RecordEvent False])"
  using assms by (simp add: process_ups_event_def)

lemma process_ok:
  assumes "store_event_in_database f clock ip u ty db = (True, db1)"
  shows "process_ups_event f clock ip env u ty db =
           (True, db1,
            RecordEvent True #
            ((if email_config_ok env then map (send_email_notification env) (enabled_notifications env) else [])
             @ (if HAS_NTFY env then concat (map (send_ntfy_notification env) (ntfy_query env)) else [])
             @ (if HAS_WEBHOOK env then [try_webhook env] else [])))"
  using assms by (simp add: process_ups_event_def Let_def get_enabled_ntfy_configs_def)


lemma email_is_send: "\<exists>c out. send_email_notification env n = Send c out"
  by (simp add: send_email_notification_def split: sum.splits prod.splits)

lemma ntfy_is_send: "a \<in> set (send_ntfy_notification env t) \<Longrightarrow> \<exists>c out. a = Send c out"
  by (cases "HAS_NTFY env"; cases "ntfy_post env t") (simp_all add: send_ntfy_notification_def)

lemma webhook_is_send: "\<exists>c out. try_webhook env = Send c out"
  by (simp add: try_webhook_def split: sum.splits prod.splits)

lemma sends_are_sends:
  assumes "a \<in> set ((if email_config_ok env then map (send_email_notification env) ns else [])
             @ (if HAS_NTFY env then concat (map (send_ntfy_notification env) ts) else [])
             @ (if HAS_WEBHOOK env then [try_webhook env] else []))"
  shows "\<exists>c out. a = Send c out"
proof -
  from assms consider "a \<in> set (map (send_email_notification env) ns)"
    | "a \<in> set (concat (map (send_ntfy_notification env) ts))"
    | "a = try_webhook env"
    by (auto split: if_splits)
  then show ?thesis
  proof cases
    case 1 then show ?thesis using email_is_send by auto
  next
    case 2 then show ?thesis using ntfy_is_send by auto
  next
    case 3 then show ?thesis using webhook_is_send by simp
  qed
qed

lemma attempted_sends:
  "attempted ((if email_config_ok env then map (send_email_notification env) ns else [])
             @ (if HAS_NTFY env then concat (map (send_ntfy_notification env) ts) else [])
             @ (if HAS_WEBHOOK env then [try_webhook env] else []))
   = (if email_config_ok env then map Email ns else [])
     @ (if HAS_NTFY env then map Ntfy ts else [])
     @ (if HAS_WEBHOOK env then [Webhook] else [])"
  by (simp add: attempted_append attempted_emails attempted_ntfy attempted_webhook)

lemma process_summary:
  assumes st: "store_event_in_database f clock ip u ty db = (stored, db1)"
  shows "fst (process_ups_event f clock ip env u ty db) = stored"
    and "fst (snd (process_ups_event f clock ip env u ty db)) = db1"
    and "hd (snd (snd (process_ups_event f clock ip env u ty db))) = RecordEvent stored"
    and "\<forall>a\<in>set (tl (snd (snd (process_ups_event f clock ip env u ty db)))). \<exists>c out. a = Send c out"
    and "attempted (snd (snd (process_ups_event f clock ip env u ty db))) =
          (if stored
           then (if email_config_ok env then map Email (enabled_notifications env) else [])
                @ (if HAS_NTFY env then map Ntfy (ntfy_query env) else [])
                @ (if HAS_WEBHOOK env then [Webhook] else [])
           else [])"
proof -
  show "fst (process_ups_event f clock ip env u ty db) = stored"
    using process_ok [of f clock ip u ty db db1 env] process_fail [of f clock ip u ty db db1 env] st
    by (cases stored) simp_all
  show "fst (snd (process_ups_event f clock ip env u ty db)) = db1"
    using process_ok [of f clock ip u ty db db1 env] process_fail [of f clock ip u ty db db1 env] st
    by (cases stored) simp_all
  show "hd (snd (snd (process_ups_event f clock ip env u ty db))) = RecordEvent stored"
    using process_ok [of f clock ip u ty db db1 env] process_fail [of f clock ip u ty db db1 env] st
    by (cases stored) simp_all
  show "\<forall>a\<in>set (tl (snd (snd (process_ups_event f clock ip env u ty db)))). \<exists>c out. a = Send c out"
  proof (cases stored)
    case True
    with st have st': "store_event_in_database f clock ip u ty db = (True, db1)" by simp
    show ?thesis
      unfolding process_ok [OF st'] using sends_are_sends by simp
  next
    case False
    with st show ?thesis by (simp add: process_fail)
  qed
  show "attempted (snd (snd (process_ups_event f clock ip env u ty db))) =
          (if stored
           then (if email_config_ok env then map Email (enabled_notifications env) else [])
                @ (if HAS_NTFY env then map Ntfy (ntfy_query env) else [])
                @ (if HAS_WEBHOOK env then [Webhook] else [])
           else [])"
  proof (cases stored)
    case True
    with st have st': "store_event_in_database f clock ip u ty db = (True, db1)" by simp
    show ?thesis
      unfolding process_ok [OF st'] using True by (simp add: attempted_sends)
  next
    case False
    with st show ?thesis by (simp add: process_fail)
  qed
qed

text \<open>
  Claim C2.  A dispatch records the event before anything is sent: the first action is the
  recording and all later actions are sends.  It returns failure exactly when the recording
  failed, and then nothing is sent.  When the recording succeeded, every enabled e-mail job,
  every ntfy configuration and the webhook module are attempted, in this order, whatever the
  earlier sends returned or raised; the event table is the one the recording left.  So an
  environment with the same configuration and other send results gives the same returned
  flag, the same event table and the same attempted channels.
\<close>

theorem dispatch_records_first_and_isolates_channels:
  assumes st: "store_event_in_database f clock ip u ty db = (stored, db1)"
    and pr: "process_ups_event f clock ip env u ty db = (ok, db', trace)"
  shows "(ok = stored) \<and> db' = db1
       \<and> hd trace = RecordEvent stored
       \<and> (\<forall>a\<in>set (tl trace). \<exists>c out. a = Send c out)
       \<and> (\<not> stored \<longrightarrow> attempted trace = [])
       \<and> (stored \<longrightarrow> attempted trace =
              (if email_config_ok env then map Email (enabled_notifications env) else [])
              @ (if HAS_NTFY env then map Ntfy (ntfy_query env) else [])
              @ (if HAS_WEBHOOK env then [Webhook] else []))
       \<and> (\<forall>env'. same_configuration env env' \<longrightarrow>
              fst (process_ups_event f clock ip env' u ty db) = ok
            \<and> fst (snd (process_ups_event f clock ip env' u ty db)) = db'
            \<and> attempted (snd (snd (process_ups_event f clock ip env' u ty db))) = attempted trace)"
proof -
  note s = process_summary [OF st]
  have a: "ok = stored" "db' = db1" "hd trace = RecordEvent stored"
    "\<forall>a\<in>set (tl trace). \<exists>c out. a = Send c out"
    using s(1-4) [of env] by (simp_all add: pr)
  have att: "attempted trace =
          (if stored
           then (if email_config_ok env then map Email (enabled_notifications env) else [])
                @ (if HAS_NTFY env then map Ntfy (ntfy_query env) else [])
                @ (if HAS_WEBHOOK env then [Webhook] else [])
           else [])"
    using s(5) [of env] by (simp add: pr)
  have iso: "fst (process_ups_event f clock ip env' u ty db) = ok
            \<and> fst (snd (process_ups_event f clock ip env' u ty db)) = db'
            \<and> attempted (snd (snd (process_ups_event f clock ip env' u ty db))) = attempted trace"
    if "same_configuration env env'" for env'
    using that unfolding s(1,2,5) [of env'] att a(1,2) by (simp add: same_configuration_def)
  show ?thesis
    using a att iso by simp
qed

theorem dispatch_records_first_and_isolates_channels_witness:
  "process_ups_event no_faults 2000000123 None env_demo ''ups1'' ''ONBATT'' []
     = (True, [new_event 1 2000000000 ''ups1'' ''ONBATT'' None],
        [RecordEvent True, Send (Email 7) Sent, Send Webhook (Raised ''ConnectionError'')])
   \<and> attempted [RecordEvent True, Send (Email 7) Sent, Send Webhook (Raised ''ConnectionError'')]
       = [Email 7, Webhook]"
proof -
  let ?f = "no_faults"
  have st: "store_event_in_database ?f 2000000123 None ''ups1'' ''ONBATT'' []
              = (True, [new_event 1 2000000000 ''ups1'' ''ONBATT'' None])"
    by (simp add: store_event_in_database_def close_previous_events_def insert_event_def Let_def
        replace_microsecond0_def SECOND_def next_event_id_def open_events_def no_faults_def)
  have pr: "process_ups_event ?f 2000000123 None env_demo ''ups1'' ''ONBATT'' []
     = (True, [new_event 1 2000000000 ''ups1'' ''ONBATT'' None],
        [RecordEvent True, Send (Email 7) Sent, Send Webhook (Raised ''ConnectionError'')])"
    by (simp add: process_ok [OF st] env_demo_def send_email_notification_def try_webhook_def)
  from dispatch_records_first_and_isolates_channels [OF st pr]
  have "attempted [RecordEvent True, Send (Email 7) Sent, Send Webhook (Raised ''ConnectionError'')]
       = [Email 7, Webhook]"
    by (simp add: env_demo_def)
  with pr show ?thesis by blast
qed

section \<open>Properties of the UPS reader\<close>

lemma map_of_dict_set: "map_of (dict_set k v d) = (map_of d)(k \<mapsto> v)"
  by (simp add: dict_set_def AList.update_conv')

lemma distinct_dict_set: "distinct (map fst d) \<Longrightarrow> distinct (map fst (dict_set k v d))"
  by (simp add: dict_set_def AList.distinct_update)

lemma map_of_fold_dict_set:
  "map_of (fold (\<lambda>(k, v). dict_set (f k) (g v)) xs acc)
     = map_of (rev (map (\<lambda>(k, v). (f k, g v)) xs) @ acc)"
proof (induction xs arbitrary: acc)
  case Nil
  show ?case by simp
next
  case (Cons x xs)
  obtain k v where x: "x = (k, v)" by (cases x)
  have "map_of (fold (\<lambda>(k, v). dict_set (f k) (g v)) (x # xs) acc)
          = map_of (rev (map (\<lambda>(k, v). (f k, g v)) xs) @ dict_set (f k) (g v) acc)"
    using Cons.IH [of "dict_set (f k) (g v) acc"] by (simp add: x)
  also have "\<dots> = map_of (rev (map (\<lambda>(k, v). (f k, g v)) (x # xs)) @ acc)"
    by (simp add: x map_of_dict_set)
  finally show ?case .
qed

lemma map_of_all_same:
  assumes "\<forall>(k, v)\<in>set ys. k = K \<longrightarrow> v = w" and "K \<in> fst ` set ys"
  shows "map_of ys K = Some w"
proof -
  from assms(2) obtain v where "map_of ys K = Some v"
    by (metis domD dom_map_of_conv_image_fst)
  moreover from this have "(K, v) \<in> set ys" by (rule map_of_SomeD)
  ultimately show ?thesis using assms(1) by auto
qed

lemma distinct_parse_lines_aux:
  "distinct (map fst acc) \<Longrightarrow>
   distinct (map fst (fold (\<lambda>line raw.
             if CHR '':'' \<in> set line
             then dict_set (strip (takeWhile (\<lambda>c. c \<noteq> CHR '':'') line))
                           (strip (tl (dropWhile (\<lambda>c. c \<noteq> CHR '':'') line))) raw
             else raw) ls acc))"
  by (induction ls arbitrary: acc) (simp_all add: distinct_dict_set)

lemma distinct_parse_lines: "distinct (map fst (parse_lines ls))"
  unfolding parse_lines_def by (rule distinct_parse_lines_aux) simp

lemma dots_realpower:
  assumes "dots_to_underscores k = ''ups_realpower''"
  shows "k = ''ups.realpower'' \<or> k = ''ups_realpower''"
  using assms unfolding dots_to_underscores_def
  by (auto simp: map_eq_Cons_conv split: if_splits)

lemma transform_lookup:
  "map_of (transform_data p raw) K =
     map_of (rev (map (\<lambda>(k, v). (dots_to_underscores k,
                 case py_float p v of Some x \<Rightarrow> pyval_of_flt x | None \<Rightarrow> PStr v)) raw)) K"
  unfolding transform_data_def by (simp add: map_of_fold_dict_set)


lemma calculate_realpower_derives:
  assumes "realpower_absent_or_zero p raw = Some True"
    and "load_percent_of p raw = Some (Fin l)"
    and "nominal_power_of p setting raw = Some (Fin n)"
  shows "calculate_realpower p setting raw =
           (if 0 < l \<and> 0 < n
            then dict_set ''ups_realpower'' (py_str p (py_round2 p (fdiv p (fmul p n l) 100)))
                   (dict_set ''ups.realpower'' (py_str p (py_round2 p (fdiv p (fmul p n l) 100))) raw)
            else raw)"
  using assms by (simp add: calculate_realpower_def Let_def)

lemma transform_derived:
  assumes d: "distinct (map fst raw)"
    and str: "py_float p s = Some (Fin x)"
  shows "map_of (transform_data p (dict_set ''ups_realpower'' s (dict_set ''ups.realpower'' s raw)))
           ''ups_realpower'' = Some (PFloat x)"
proof -
  let ?raw' = "dict_set ''ups_realpower'' s (dict_set ''ups.realpower'' s raw)"
  let ?h = "\<lambda>(k, v). (dots_to_underscores k,
                 case py_float p v of Some x \<Rightarrow> pyval_of_flt x | None \<Rightarrow> PStr v)"
  have d': "distinct (map fst ?raw')"
    using d by (simp add: distinct_dict_set)
  have m1: "map_of ?raw' ''ups_realpower'' = Some s" and m2: "map_of ?raw' ''ups.realpower'' = Some s"
    by (simp_all add: map_of_dict_set)
  have all: "\<forall>(k, v)\<in>set (rev (map ?h ?raw')). k = ''ups_realpower'' \<longrightarrow> v = PFloat x"
  proof (clarify)
    fix v assume "(''ups_realpower'', v) \<in> set (rev (map ?h ?raw'))"
    then have "(''ups_realpower'', v) \<in> ?h ` set ?raw'" by simp
    then obtain kv where kv: "kv \<in> set ?raw'" and e: "(''ups_realpower'', v) = ?h kv"
      by (rule imageE)
    obtain k0 v0 where kv0: "kv = (k0, v0)" by (cases kv)
    from e have k0: "dots_to_underscores k0 = ''ups_realpower''"
      and v: "v = (case py_float p v0 of Some x \<Rightarrow> pyval_of_flt x | None \<Rightarrow> PStr v0)"
      unfolding kv0 by simp_all
    from kv d' have "map_of ?raw' k0 = Some v0" unfolding kv0 by simp
    moreover from k0 have "k0 = ''ups.realpower'' \<or> k0 = ''ups_realpower''" by (rule dots_realpower)
    ultimately have "v0 = s" using m1 m2 by auto
    with v str show "v = PFloat x" by simp
  qed
  have du: "dots_to_underscores ''ups_realpower'' = ''ups_realpower''"
    by (simp add: dots_to_underscores_def)
  have "(''ups_realpower'', s) \<in> set ?raw'"
    using m1 by (rule map_of_SomeD)
  then have "?h (''ups_realpower'', s) \<in> ?h ` set ?raw'" by (rule imageI)
  then have "fst (?h (''ups_realpower'', s)) \<in> fst ` (?h ` set ?raw')" by (rule imageI)
  then have ex: "''ups_realpower'' \<in> fst ` set (rev (map ?h ?raw'))"
    unfolding set_rev set_map by (simp add: du)
  show ?thesis
    unfolding transform_lookup using all ex by (rule map_of_all_same)
qed

lemma transform_absent:
  assumes "map_of raw ''ups.realpower'' = None" and "map_of raw ''ups_realpower'' = None"
  shows "map_of (transform_data p raw) ''ups_realpower'' = None"
proof (rule ccontr)
  let ?h = "\<lambda>(k, v). (dots_to_underscores k,
                 case py_float p v of Some x \<Rightarrow> pyval_of_flt x | None \<Rightarrow> PStr v)"
  assume "map_of (transform_data p raw) ''ups_realpower'' \<noteq> None"
  then obtain v where "map_of (rev (map ?h raw)) ''ups_realpower'' = Some v"
    unfolding transform_lookup by blast
  then have "(''ups_realpower'', v) \<in> set (rev (map ?h raw))" by (rule map_of_SomeD)
  then have "(''ups_realpower'', v) \<in> ?h ` set raw" by simp
  then obtain kv where kv: "kv \<in> set raw" and e: "(''ups_realpower'', v) = ?h kv"
    by (rule imageE)
  obtain k0 v0 where kv0: "kv = (k0, v0)" by (cases kv)
  from e have "dots_to_underscores k0 = ''ups_realpower''" unfolding kv0 by simp
  then have k: "k0 = ''ups.realpower'' \<or> k0 = ''ups_realpower''" by (rule dots_realpower)
  from kv have "fst (k0, v0) \<in> fst ` set raw" unfolding kv0 by (rule imageI)
  then have "k0 \<in> fst ` set raw" by simp
  then have "map_of raw k0 \<noteq> None" by (simp add: map_of_eq_None_iff)
  with k assms show False by auto
qed

lemma get_ups_data_completed:
  assumes "\<not> py_not (command cfg)" "\<not> py_not (name cfg)" "\<not> py_not (host cfg)"
    and "run (the (command cfg)) (the (name cfg) @ ''@'' @ the (host cfg)) = Completed 0 out err"
  shows "get_ups_data p setting run cfg =
           (cfg, Inr (transform_data p (calculate_realpower p setting (parse_lines out))))"
  using assms by (simp add: get_ups_data_def Let_def)

text \<open>
  Claim C7, as the code has it.  The status command completes with return code 0 and \<open>raw\<close>
  is its parsed output.  Real power is absent or zero there: \<open>raw\<close> has neither
  \<open>ups.realpower\<close> nor \<open>ups_realpower\<close>, or the text under the first of them that it has
  converts to the float 0.  The load \<open>l\<close> is the float of the text under \<open>ups.load\<close>, else
  under \<open>ups_load\<close>, else 0.  The nominal power \<open>n\<close> is the float of the text the device
  reports under \<open>ups.realpower.nominal\<close>, else \<open>ups_realpower_nominal\<close>, else
  \<open>UPS_REALPOWER_NOMINAL\<close>, and the float of the configured constant when it reports none.
  The text \<open>str\<close> gives for the derived value converts back to it.  Then the reader returns
  a sample.  When \<open>l\<close> and \<open>n\<close> are both positive, its \<open>ups_realpower\<close> is what \<open>round(_, 2)\<close>
  makes of the float product of \<open>n\<close> and \<open>l\<close> divided by 100; where the float product is
  within \<open>e1\<close> of the exact one, the float quotient within \<open>e2\<close> of the exact one and the
  rounding moves its argument by at most \<open>0.005 + e3\<close>, that value is within
  \<open>0.005 + e1 / 100 + e2 + e3\<close> of \<open>n * l / 100\<close>.  Otherwise nothing is derived: the
  sample is the transformed output, in which \<open>ups_realpower\<close> is absent when it was absent
  from the output.
\<close>

theorem realpower_derived_rounded_when_positive:
  assumes cfg: "\<not> py_not (command cfg)" "\<not> py_not (name cfg)" "\<not> py_not (host cfg)"
    and run: "run (the (command cfg)) (the (name cfg) @ ''@'' @ the (host cfg)) = Completed 0 out err"
    and raw: "raw = parse_lines out"
    and az: "case map_of raw ''ups.realpower'' of
               Some s \<Rightarrow> py_float p s = Some (Fin 0)
             | None \<Rightarrow> (case map_of raw ''ups_realpower'' of
                          Some s \<Rightarrow> py_float p s = Some (Fin 0)
                        | None \<Rightarrow> True)"
    and load: "case map_of raw ''ups.load'' of
                 Some s \<Rightarrow> py_float p s = Some (Fin l)
               | None \<Rightarrow> (case map_of raw ''ups_load'' of
                            Some s \<Rightarrow> py_float p s = Some (Fin l)
                          | None \<Rightarrow> l = 0)"
    and nom: "case map_of raw ''ups.realpower.nominal'' of
                Some s \<Rightarrow> py_float p s = Some (Fin n)
              | None \<Rightarrow> (case map_of raw ''ups_realpower_nominal'' of
                           Some s \<Rightarrow> py_float p s = Some (Fin n)
                         | None \<Rightarrow> (case map_of raw ''UPS_REALPOWER_NOMINAL'' of
                                      Some s \<Rightarrow> py_float p s = Some (Fin n)
                                    | None \<Rightarrow> float_of p nominal_setting = Some (Fin n)))"
    and str: "py_float p (py_str p (py_round2 p (fdiv p (fmul p n l) 100)))
                = Some (Fin (py_round2 p (fdiv p (fmul p n l) 100)))"
  shows "\<exists>sample. snd (get_ups_data p nominal_setting run cfg) = Inr sample
       \<and> (0 < l \<and> 0 < n \<longrightarrow>
            map_of sample ''ups_realpower'' = Some (PFloat (py_round2 p (fdiv p (fmul p n l) 100))))
       \<and> (0 < l \<and> 0 < n
            \<and> \<bar>fmul p n l - n * l\<bar> \<le> e1
            \<and> \<bar>fdiv p (fmul p n l) 100 - fmul p n l / 100\<bar> \<le> e2
            \<and> \<bar>py_round2 p (fdiv p (fmul p n l) 100) - fdiv p (fmul p n l) 100\<bar> \<le> 1 / 200 + e3
            \<longrightarrow> (\<exists>v. map_of sample ''ups_realpower'' = Some (PFloat v)
                      \<and> \<bar>v - n * l / 100\<bar> \<le> 1 / 200 + e1 / 100 + e2 + e3))
       \<and> (\<not> (0 < l \<and> 0 < n) \<longrightarrow> sample = transform_data p raw)
       \<and> (\<not> (0 < l \<and> 0 < n) \<and> map_of raw ''ups.realpower'' = None \<and> map_of raw ''ups_realpower'' = None
            \<longrightarrow> map_of sample ''ups_realpower'' = None)"
proof -
  let ?sample = "transform_data p (calculate_realpower p nominal_setting raw)"
  let ?r = "py_round2 p (fdiv p (fmul p n l) 100)"
  have az': "realpower_absent_or_zero p raw = Some True"
    using az by (simp add: realpower_absent_or_zero_def split: option.splits)
  have load': "load_percent_of p raw = Some (Fin l)"
    using load by (simp add: load_percent_of_def split: option.splits)
  have nom': "nominal_power_of p nominal_setting raw = Some (Fin n)"
    using nom by (simp add: nominal_power_of_def split: option.splits)
  have g: "snd (get_ups_data p nominal_setting run cfg) = Inr ?sample"
    using get_ups_data_completed [of cfg run out err p nominal_setting] cfg run by (simp add: raw)
  have d: "distinct (map fst raw)"
    unfolding raw by (rule distinct_parse_lines)
  have pos: "map_of ?sample ''ups_realpower'' = Some (PFloat ?r)" if t: "0 < l \<and> 0 < n"
    unfolding calculate_realpower_derives [OF az' load' nom'] if_P [OF t]
    by (rule transform_derived [OF d str])
  have neg: "?sample = transform_data p raw" if f: "\<not> (0 < l \<and> 0 < n)"
    unfolding calculate_realpower_derives [OF az' load' nom'] if_not_P [OF f] ..
  have absent: "map_of ?sample ''ups_realpower'' = None"
    if f: "\<not> (0 < l \<and> 0 < n)"
      and a: "map_of raw ''ups.realpower'' = None" "map_of raw ''ups_realpower'' = None"
    unfolding neg [OF f] by (rule transform_absent [OF a])
  have acc: "\<exists>v. map_of ?sample ''ups_realpower'' = Some (PFloat v)
                      \<and> \<bar>v - n * l / 100\<bar> \<le> 1 / 200 + e1 / 100 + e2 + e3"
    if h: "0 < l \<and> 0 < n
            \<and> \<bar>fmul p n l - n * l\<bar> \<le> e1
            \<and> \<bar>fdiv p (fmul p n l) 100 - fmul p n l / 100\<bar> \<le> e2
            \<and> \<bar>py_round2 p (fdiv p (fmul p n l) 100) - fdiv p (fmul p n l) 100\<bar> \<le> 1 / 200 + e3"
  proof -
    define m where "m = fmul p n l"
    define q where "q = fdiv p m 100"
    define x where "x = n * l"
    from h have t: "0 < l \<and> 0 < n" by simp
    from h have b1: "\<bar>m - x\<bar> \<le> e1" and b2: "\<bar>q - m / 100\<bar> \<le> e2"
      and b3: "\<bar>py_round2 p q - q\<bar> \<le> 1 / 200 + e3"
      by (simp_all add: m_def q_def x_def)
    from b1 have b1': "\<bar>m / 100 - x / 100\<bar> \<le> e1 / 100" by linarith
    have "\<bar>py_round2 p q - x / 100\<bar> \<le> 1 / 200 + e1 / 100 + e2 + e3"
      using b1' b2 b3 by linarith
    then have "\<bar>?r - n * l / 100\<bar> \<le> 1 / 200 + e1 / 100 + e2 + e3"
      by (simp add: m_def q_def x_def)
    with pos [OF t] show ?thesis by blast
  qed
  show ?thesis
  proof (rule exI [of _ ?sample], intro conjI impI)
    show "snd (get_ups_data p nominal_setting run cfg) = Inr ?sample" by (rule g)
    show "map_of ?sample ''ups_realpower'' = Some (PFloat ?r)" if "0 < l \<and> 0 < n"
      using that by (rule pos)
    show "\<exists>v. map_of ?sample ''ups_realpower'' = Some (PFloat v)
                      \<and> \<bar>v - n * l / 100\<bar> \<le> 1 / 200 + e1 / 100 + e2 + e3"
      if "0 < l \<and> 0 < n
            \<and> \<bar>fmul p n l - n * l\<bar> \<le> e1
            \<and> \<bar>fdiv p (fmul p n l) 100 - fmul p n l / 100\<bar> \<le> e2
            \<and> \<bar>py_round2 p (fdiv p (fmul p n l) 100) - fdiv p (fmul p n l) 100\<bar> \<le> 1 / 200 + e3"
      using that by (rule acc)
    show "?sample = transform_data p raw" if "\<not> (0 < l \<and> 0 < n)"
      using that by (rule neg)
    show "map_of ?sample ''ups_realpower'' = None"
      if "\<not> (0 < l \<and> 0 < n) \<and> map_of raw ''ups.realpower'' = None \<and> map_of raw ''ups_realpower'' = None"
      using that absent by blast
  qed
qed

lemma parse_load50: "parse_lines out_load50 = [(''ups_load'', ''50''), (''ups_realpower_nominal'', ''400'')]"
  by (simp add: parse_lines_def out_load50_def dict_set_def strip_def is_space_def)

lemma parse_load0: "parse_lines out_load0 = [(''ups.load'', ''0''), (''ups.realpower.nominal'', ''400'')]"
  by (simp add: parse_lines_def out_load0_def dict_set_def strip_def is_space_def)

lemma parse_zero:
  "parse_lines out_zero = [(''ups.load'', ''50''), (''ups.realpower.nominal'', ''400''),
                           (''ups.realpower'', ''0'')]"
  by (simp add: parse_lines_def out_zero_def dict_set_def strip_def is_space_def)

lemma parse_fallback: "parse_lines out_fallback = [(''ups.load'', ''50'')]"
  by (simp add: parse_lines_def out_fallback_def dict_set_def strip_def is_space_def)

lemma parse_load_eighth:
  "parse_lines out_load_eighth = [(''ups.load'', ''0.125''), (''ups.realpower.nominal'', ''100'')]"
  by (simp add: parse_lines_def out_load_eighth_def dict_set_def strip_def is_space_def)

lemma cfg_demo_complete:
  "\<not> py_not (command cfg_demo)" "\<not> py_not (name cfg_demo)" "\<not> py_not (host cfg_demo)"
  by (simp_all add: cfg_demo_def py_not_def)

lemma get_ups_data_demo:
  "get_ups_data p setting (\<lambda>c t. Completed 0 out []) cfg_demo
     = (cfg_demo, Inr (transform_data p (calculate_realpower p setting (parse_lines out))))"
  using get_ups_data_completed [of cfg_demo "\<lambda>c t. Completed 0 out []" out "[]" p setting]
    cfg_demo_complete by simp

lemma sample_load50:
  "snd (get_ups_data py_demo (PInt 1000) (\<lambda>c t. Completed 0 out_load50 []) cfg_demo)
     = Inr [(''ups_load'', PFloat 50), (''ups_realpower_nominal'', PFloat 400),
            (''ups_realpower'', PFloat 200)]"
  unfolding get_ups_data_demo parse_load50
  by (simp add: calculate_realpower_def realpower_absent_or_zero_def load_percent_of_def
      nominal_power_of_def transform_data_def dict_set_def dots_to_underscores_def py_demo_def Let_def)

lemma sample_zero:
  "snd (get_ups_data py_demo (PInt 1000) (\<lambda>c t. Completed 0 out_zero []) cfg_demo)
     = Inr [(''ups_load'', PFloat 50), (''ups_realpower_nominal'', PFloat 400),
            (''ups_realpower'', PFloat 200)]"
  unfolding get_ups_data_demo parse_zero
  by (simp add: calculate_realpower_def realpower_absent_or_zero_def load_percent_of_def
      nominal_power_of_def transform_data_def dict_set_def dots_to_underscores_def py_demo_def Let_def)

lemma sample_fallback:
  "snd (get_ups_data py_demo (PInt 1000) (\<lambda>c t. Completed 0 out_fallback []) cfg_demo)
     = Inr [(''ups_load'', PFloat 50), (''ups_realpower'', PFloat 500)]"
  unfolding get_ups_data_demo parse_fallback
  by (simp add: calculate_realpower_def realpower_absent_or_zero_def load_percent_of_def
      nominal_power_of_def transform_data_def dict_set_def dots_to_underscores_def py_demo_def Let_def)

lemma sample_load0:
  "snd (get_ups_data py_demo (PInt 1000) (\<lambda>c t. Completed 0 out_load0 []) cfg_demo)
     = Inr [(''ups_load'', PFloat 0), (''ups_realpower_nominal'', PFloat 400)]"
  unfolding get_ups_data_demo parse_load0
  by (simp add: calculate_realpower_def realpower_absent_or_zero_def load_percent_of_def
      nominal_power_of_def transform_data_def dict_set_def dots_to_underscores_def py_demo_def Let_def)

lemma sample_load_eighth:
  "snd (get_ups_data py_ieee (PInt 1000) (\<lambda>c t. Completed 0 out_load_eighth []) cfg_demo)
     = Inr [(''ups_load'', PFloat (1 / 8)), (''ups_realpower_nominal'', PFloat 100),
            (''ups_realpower'', PFloat double_0_12)]"
  unfolding get_ups_data_demo parse_load_eighth
  by (simp add: calculate_realpower_def realpower_absent_or_zero_def load_percent_of_def
      nominal_power_of_def transform_data_def dict_set_def dots_to_underscores_def py_ieee_def Let_def)

text \<open>
  Three runs of the theorem: no real power in the output and a reported nominal power of
  400; a reported real power of 0; and no reported nominal power, where the configured
  constant 1000 is used.  The load is 50 in all three.
\<close>

theorem realpower_derived_rounded_when_positive_witness:
  "snd (get_ups_data py_demo (PInt 1000) (\<lambda>c t. Completed 0 out_load50 []) cfg_demo)
     = Inr [(''ups_load'', PFloat 50), (''ups_realpower_nominal'', PFloat 400),
            (''ups_realpower'', PFloat 200)]
   \<and> map_of [(''ups_load'', PFloat 50), (''ups_realpower_nominal'', PFloat 400),
              (''ups_realpower'', PFloat 200)] ''ups_realpower''
        = Some (PFloat (py_round2 py_demo (fdiv py_demo (fmul py_demo 400 50) 100)))
   \<and> snd (get_ups_data py_demo (PInt 1000) (\<lambda>c t. Completed 0 out_zero []) cfg_demo)
     = Inr [(''ups_load'', PFloat 50), (''ups_realpower_nominal'', PFloat 400),
            (''ups_realpower'', PFloat 200)]
   \<and> snd (get_ups_data py_demo (PInt 1000) (\<lambda>c t. Completed 0 out_fallback []) cfg_demo)
     = Inr [(''ups_load'', PFloat 50), (''ups_realpower'', PFloat 500)]
   \<and> map_of [(''ups_load'', PFloat 50), (''ups_realpower'', PFloat 500)] ''ups_realpower''
        = Some (PFloat (py_round2 py_demo (fdiv py_demo (fmul py_demo 1000 50) 100)))"
proof -
  have run: "(\<lambda>c t. Completed 0 out []) (the (command cfg_demo)) (the (name cfg_demo) @ ''@'' @ the (host cfg_demo))
               = Completed 0 out []" for out :: "string list"
    by simp
  have s1: "py_float py_demo (py_str py_demo (py_round2 py_demo (fdiv py_demo (fmul py_demo 400 50) 100)))
              = Some (Fin (py_round2 py_demo (fdiv py_demo (fmul py_demo 400 50) 100)))"
    and s2: "py_float py_demo (py_str py_demo (py_round2 py_demo (fdiv py_demo (fmul py_demo 1000 50) 100)))
              = Some (Fin (py_round2 py_demo (fdiv py_demo (fmul py_demo 1000 50) 100)))"
    by (simp_all add: py_demo_def)
  have t1: "\<exists>sample. snd (get_ups_data py_demo (PInt 1000) (\<lambda>c t. Completed 0 out_load50 []) cfg_demo) = Inr sample
       \<and> (0 < (50 :: rat) \<and> 0 < (400 :: rat) \<longrightarrow>
            map_of sample ''ups_realpower''
              = Some (PFloat (py_round2 py_demo (fdiv py_demo (fmul py_demo 400 50) 100))))
       \<and> (0 < (50 :: rat) \<and> 0 < (400 :: rat)
            \<and> \<bar>fmul py_demo 400 50 - 400 * 50\<bar> \<le> 0
            \<and> \<bar>fdiv py_demo (fmul py_demo 400 50) 100 - fmul py_demo 400 50 / 100\<bar> \<le> 0
            \<and> \<bar>py_round2 py_demo (fdiv py_demo (fmul py_demo 400 50) 100)
                 - fdiv py_demo (fmul py_demo 400 50) 100\<bar> \<le> 1 / 200 + 0
            \<longrightarrow> (\<exists>v. map_of sample ''ups_realpower'' = Some (PFloat v)
                      \<and> \<bar>v - 400 * 50 / 100\<bar> \<le> 1 / 200 + 0 / 100 + 0 + 0))
       \<and> (\<not> (0 < (50 :: rat) \<and> 0 < (400 :: rat)) \<longrightarrow> sample = transform_data py_demo (parse_lines out_load50))
       \<and> (\<not> (0 < (50 :: rat) \<and> 0 < (400 :: rat)) \<and> map_of (parse_lines out_load50) ''ups.realpower'' = None
              \<and> map_of (parse_lines out_load50) ''ups_realpower'' = None
            \<longrightarrow> map_of sample ''ups_realpower'' = None)"
    by (rule realpower_derived_rounded_when_positive
            [where cfg = cfg_demo and run = "\<lambda>c t. Completed 0 out_load50 []" and out = out_load50 and err = "[]"
                and raw = "parse_lines out_load50" and p = py_demo and l = 50 and n = 400
                and nominal_setting = "PInt 1000" and ?e1.0 = 0 and ?e2.0 = 0 and ?e3.0 = 0,
             OF cfg_demo_complete run refl _ _ _ s1])
       (simp_all add: parse_load50 py_demo_def)
  have a: "map_of [(''ups_load'', PFloat 50), (''ups_realpower_nominal'', PFloat 400),
              (''ups_realpower'', PFloat 200)] ''ups_realpower''
        = Some (PFloat (py_round2 py_demo (fdiv py_demo (fmul py_demo 400 50) 100)))"
    using t1 unfolding sample_load50 by auto
  have t2: "\<exists>sample. snd (get_ups_data py_demo (PInt 1000) (\<lambda>c t. Completed 0 out_zero []) cfg_demo) = Inr sample
       \<and> (0 < (50 :: rat) \<and> 0 < (400 :: rat) \<longrightarrow>
            map_of sample ''ups_realpower''
              = Some (PFloat (py_round2 py_demo (fdiv py_demo (fmul py_demo 400 50) 100))))
       \<and> (0 < (50 :: rat) \<and> 0 < (400 :: rat)
            \<and> \<bar>fmul py_demo 400 50 - 400 * 50\<bar> \<le> 0
            \<and> \<bar>fdiv py_demo (fmul py_demo 400 50) 100 - fmul py_demo 400 50 / 100\<bar> \<le> 0
            \<and> \<bar>py_round2 py_demo (fdiv py_demo (fmul py_demo 400 50) 100)
                 - fdiv py_demo (fmul py_demo 400 50) 100\<bar> \<le> 1 / 200 + 0
            \<longrightarrow> (\<exists>v. map_of sample ''ups_realpower'' = Some (PFloat v)
                      \<and> \<bar>v - 400 * 50 / 100\<bar> \<le> 1 / 200 + 0 / 100 + 0 + 0))
       \<and> (\<not> (0 < (50 :: rat) \<and> 0 < (400 :: rat)) \<longrightarrow> sample = transform_data py_demo (parse_lines out_zero))
       \<and> (\<not> (0 < (50 :: rat) \<and> 0 < (400 :: rat)) \<and> map_of (parse_lines out_zero) ''ups.realpower'' = None
              \<and> map_of (parse_lines out_zero) ''ups_realpower'' = None
            \<longrightarrow> map_of sample ''ups_realpower'' = None)"
    by (rule realpower_derived_rounded_when_positive
            [where cfg = cfg_demo and run = "\<lambda>c t. Completed 0 out_zero []" and out = out_zero and err = "[]"
                and raw = "parse_lines out_zero" and p = py_demo and l = 50 and n = 400
                and nominal_setting = "PInt 1000" and ?e1.0 = 0 and ?e2.0 = 0 and ?e3.0 = 0,
             OF cfg_demo_complete run refl _ _ _ s1])
       (simp_all add: parse_zero py_demo_def)
  have b: "map_of [(''ups_load'', PFloat 50), (''ups_realpower_nominal'', PFloat 400),
              (''ups_realpower'', PFloat 200)] ''ups_realpower''
        = Some (PFloat (py_round2 py_demo (fdiv py_demo (fmul py_demo 400 50) 100)))"
    using t2 unfolding sample_zero by auto
  have t3: "\<exists>sample. snd (get_ups_data py_demo (PInt 1000) (\<lambda>c t. Completed 0 out_fallback []) cfg_demo) = Inr sample
       \<and> (0 < (50 :: rat) \<and> 0 < (1000 :: rat) \<longrightarrow>
            map_of sample ''ups_realpower''
              = Some (PFloat (py_round2 py_demo (fdiv py_demo (fmul py_demo 1000 50) 100))))
       \<and> (0 < (50 :: rat) \<and> 0 < (1000 :: rat)
            \<and> \<bar>fmul py_demo 1000 50 - 1000 * 50\<bar> \<le> 0
            \<and> \<bar>fdiv py_demo (fmul py_demo 1000 50) 100 - fmul py_demo 1000 50 / 100\<bar> \<le> 0
            \<and> \<bar>py_round2 py_demo (fdiv py_demo (fmul py_demo 1000 50) 100)
                 - fdiv py_demo (fmul py_demo 1000 50) 100\<bar> \<le> 1 / 200 + 0
            \<longrightarrow> (\<exists>v. map_of sample ''ups_realpower'' = Some (PFloat v)
                      \<and> \<bar>v - 1000 * 50 / 100\<bar> \<le> 1 / 200 + 0 / 100 + 0 + 0))
       \<and> (\<not> (0 < (50 :: rat) \<and> 0 < (1000 :: rat)) \<longrightarrow> sample = transform_data py_demo (parse_lines out_fallback))
       \<and> (\<not> (0 < (50 :: rat) \<and> 0 < (1000 :: rat)) \<and> map_of (parse_lines out_fallback) ''ups.realpower'' = None
              \<and> map_of (parse_lines out_fallback) ''ups_realpower'' = None
            \<longrightarrow> map_of sample ''ups_realpower'' = None)"
    by (rule realpower_derived_rounded_when_positive
            [where cfg = cfg_demo and run = "\<lambda>c t. Completed 0 out_fallback []" and out = out_fallback and err = "[]"
                and raw = "parse_lines out_fallback" and p = py_demo and l = 50 and n = 1000
                and nominal_setting = "PInt 1000" and ?e1.0 = 0 and ?e2.0 = 0 and ?e3.0 = 0,
             OF cfg_demo_complete run refl _ _ _ s2])
       (simp_all add: parse_fallback py_demo_def)
  have c: "map_of [(''ups_load'', PFloat 50), (''ups_realpower'', PFloat 500)] ''ups_realpower''
        = Some (PFloat (py_round2 py_demo (fdiv py_demo (fmul py_demo 1000 50) 100)))"
    using t3 unfolding sample_fallback by auto
  from sample_load50 a sample_zero sample_fallback c show ?thesis by blast
qed

text \<open>
  The derivation as the claim states it, for every result without real power, fails twice.
  With load 0 and nominal power 400 the sample has no \<open>ups_realpower\<close> at all.  With load
  0.125 and nominal power 100 the sample has the double nearest to 0.12, where the formula
  gives 0.125.
\<close>

theorem realpower_exact_counterexample:
  "map_of (parse_lines out_load0) ''ups.realpower'' = None
   \<and> map_of (parse_lines out_load0) ''ups_realpower'' = None
   \<and> snd (get_ups_data py_demo (PInt 1000) (\<lambda>c t. Completed 0 out_load0 []) cfg_demo)
        = Inr [(''ups_load'', PFloat 0), (''ups_realpower_nominal'', PFloat 400)]
   \<and> map_of (parse_lines out_load_eighth) ''ups.realpower'' = None
   \<and> map_of (parse_lines out_load_eighth) ''ups_realpower'' = None
   \<and> snd (get_ups_data py_ieee (PInt 1000) (\<lambda>c t. Completed 0 out_load_eighth []) cfg_demo)
        = Inr [(''ups_load'', PFloat (1 / 8)), (''ups_realpower_nominal'', PFloat 100),
               (''ups_realpower'', PFloat double_0_12)]
   \<and> double_0_12 \<noteq> 100 * (1 / 8) / 100"
proof -
  have a: "map_of (parse_lines out_load0) ''ups.realpower'' = None"
    "map_of (parse_lines out_load0) ''ups_realpower'' = None"
    by (simp_all add: parse_load0)
  have b: "map_of (parse_lines out_load_eighth) ''ups.realpower'' = None"
    "map_of (parse_lines out_load_eighth) ''ups_realpower'' = None"
    by (simp_all add: parse_load_eighth)
  have ne: "double_0_12 \<noteq> 100 * (1 / 8) / 100"
    by (simp add: double_0_12_def)
  from a sample_load0 b sample_load_eighth ne show ?thesis by blast
qed

section \<open>Properties of the averaging\<close>

lemma map_of_key_table:
  "map_of (map (\<lambda>c. (c, f c)) cs) k = (if k \<in> set cs then Some (f k) else None)"
  by (induction cs) simp_all

lemma averages_lookup:
  assumes d: "df c = Some rows" and ne: "rows \<noteq> []" "columns rows \<noteq> []"
  shows "\<exists>res. calculate_averages p c = Some res \<and>
           (\<forall>col. map_of res col =
              (if col \<in> set (columns rows) \<and> numeric_col rows col then Some (col_mean p rows col)
               else if col \<in> set (columns rows) \<and> col \<noteq> ''timestamp'' then Some (cell (last rows) col)
               else None))"
proof -
  let ?num = "filter (numeric_col rows) (columns rows)"
  let ?non = "filter (\<lambda>c. c \<noteq> ''timestamp'') (filter (\<lambda>c. \<not> numeric_col rows c) (columns rows))"
  let ?res = "map (\<lambda>c. (c, col_mean p rows c)) ?num @ map (\<lambda>c. (c, cell (last rows) c)) ?non"
  have r: "calculate_averages p c = Some ?res"
    using d ne by (simp add: calculate_averages_def Let_def)
  have "map_of ?res col =
              (if col \<in> set (columns rows) \<and> numeric_col rows col then Some (col_mean p rows col)
               else if col \<in> set (columns rows) \<and> col \<noteq> ''timestamp'' then Some (cell (last rows) col)
               else None)" for col
    unfolding map_of_append map_add_def map_of_key_table by auto
  with r show ?thesis by blast
qed

lemma calculate_averages_empty:
  "df c = None \<Longrightarrow> calculate_averages p c = None"
  "df c = Some [] \<Longrightarrow> calculate_averages p c = None"
  by (simp_all add: calculate_averages_def)

lemma add_buffers:
  "data (fst (add env p c t d))
     = data c @ [(t, fold (\<lambda>(key, value). dict_set (dots_to_underscores key) value) d [])]"
  "df (fst (add env p c t d))
     = Some (map df_row (data c @ [(t, fold (\<lambda>(key, value). dict_set (dots_to_underscores key) value) d [])]))"
  "cache_size (fst (add env p c t d)) = cache_size c"
  "next_save_time (fst (add env p c t d))
     = (if next_save_time c = None then Some (get_next_minute env t) else next_save_time c)"
  by (simp_all add: add_def broadcast_cache_update_def Let_def)

lemma df_cache_load42: "df cache_load42 = Some rows_load42"
  unfolding cache_load42_def add_buffers
  by (simp add: init_cache_def rows_load42_def df_row_def dict_merge_def dict_set_def dots_to_underscores_def)

lemma df_cache_alarm: "df cache_alarm = Some rows_alarm"
  unfolding cache_alarm_def add_buffers
  by (simp add: init_cache_def rows_alarm_def df_row_def dict_merge_def dict_set_def dots_to_underscores_def)

lemma single_row_column:
  assumes "map_of row col = Some (PFloat x)"
  shows "col \<in> set (columns [row])" and "numeric_col [row] col" and "col_numbers [row] col = [x]"
proof -
  from assms have "(col, PFloat x) \<in> set row" by (rule map_of_SomeD)
  then have "fst (col, PFloat x) \<in> fst ` set row" by (rule imageI)
  then show "col \<in> set (columns [row])" by (simp add: columns_def)
  show "numeric_col [row] col" using assms by (simp add: numeric_col_def cell_def)
  show "col_numbers [row] col = [x]" using assms by (simp add: col_numbers_def cell_def List.map_filter_def)
qed

text \<open>
  Claim C5, as the code has it.  Without a DataFrame, or with one without rows,
  \<open>calculate_averages\<close> returns \<open>None\<close>.  Otherwise it returns a dict in which every column
  other than \<open>timestamp\<close> has a value: a numeric column what \<open>round(2)\<close> makes of the \<open>mean()\<close>
  of its numbers (NaN when it has none); a non-numeric column the value of the last
  buffered row, which is NaN when that row lacks the column.  A non-numeric \<open>timestamp\<close>
  column is left out.  Where the float mean of a column is within \<open>eps\<close> of the exact
  arithmetic mean of its numbers and the rounding moves it by at most \<open>0.005 + dlt\<close>, the
  value is within \<open>0.005 + eps + dlt\<close> of the exact arithmetic mean.  In particular, for a
  buffer of one sample with \<open>ups_load\<close> 42.0 the result has \<open>ups_load\<close> 42.0, the mean
  of the single float 42.0 being 42.0 and its rounding to two decimals too.
\<close>

theorem calculate_averages_mean_and_last_row:
  "(df c = None \<or> df c = Some [] \<longrightarrow> calculate_averages p c = None)
   \<and> (\<forall>rows. df c = Some rows \<and> rows \<noteq> [] \<and> columns rows \<noteq> [] \<longrightarrow>
        (\<exists>res. calculate_averages p c = Some res
           \<and> (\<forall>col\<in>set (columns rows). col \<noteq> ''timestamp'' \<longrightarrow>
                 (numeric_col rows col \<and> col_numbers rows col \<noteq> [] \<longrightarrow>
                    map_of res col = Some (PFloat (np_round2 p (np_mean p (col_numbers rows col)))))
               \<and> (numeric_col rows col \<and> col_numbers rows col = [] \<longrightarrow> map_of res col = Some PNaN)
               \<and> (\<not> numeric_col rows col \<longrightarrow> map_of res col = Some (cell (last rows) col)))
           \<and> (\<not> numeric_col rows ''timestamp'' \<longrightarrow> map_of res ''timestamp'' = None)))
   \<and> (\<forall>rows col eps dlt.
          df c = Some rows \<and> rows \<noteq> [] \<and> col \<in> set (columns rows) \<and> col \<noteq> ''timestamp''
          \<and> numeric_col rows col \<and> col_numbers rows col \<noteq> []
          \<and> \<bar>np_mean p (col_numbers rows col)
               - sum_list (col_numbers rows col) / of_nat (length (col_numbers rows col))\<bar> \<le> eps
          \<and> \<bar>np_round2 p (np_mean p (col_numbers rows col)) - np_mean p (col_numbers rows col)\<bar>
               \<le> 1 / 200 + dlt \<longrightarrow>
        (\<exists>res v. calculate_averages p c = Some res \<and> map_of res col = Some (PFloat v)
           \<and> \<bar>v - sum_list (col_numbers rows col) / of_nat (length (col_numbers rows col))\<bar>
                \<le> 1 / 200 + eps + dlt))
   \<and> (\<forall>row. df c = Some [row] \<and> map_of row ''ups_load'' = Some (PFloat 42)
              \<and> np_mean p [42] = 42 \<and> np_round2 p 42 = 42 \<longrightarrow>
        (\<exists>res. calculate_averages p c = Some res \<and> map_of res ''ups_load'' = Some (PFloat 42)))"
proof -
  have a: "df c = None \<or> df c = Some [] \<longrightarrow> calculate_averages p c = None"
    using calculate_averages_empty by blast
  have b: "\<exists>res. calculate_averages p c = Some res
           \<and> (\<forall>col\<in>set (columns rows). col \<noteq> ''timestamp'' \<longrightarrow>
                 (numeric_col rows col \<and> col_numbers rows col \<noteq> [] \<longrightarrow>
                    map_of res col = Some (PFloat (np_round2 p (np_mean p (col_numbers rows col)))))
               \<and> (numeric_col rows col \<and> col_numbers rows col = [] \<longrightarrow> map_of res col = Some PNaN)
               \<and> (\<not> numeric_col rows col \<longrightarrow> map_of res col = Some (cell (last rows) col)))
           \<and> (\<not> numeric_col rows ''timestamp'' \<longrightarrow> map_of res ''timestamp'' = None)"
    if h: "df c = Some rows \<and> rows \<noteq> [] \<and> columns rows \<noteq> []" for rows
  proof -
    from h obtain res where r: "calculate_averages p c = Some res"
      and l: "\<And>col. map_of res col =
              (if col \<in> set (columns rows) \<and> numeric_col rows col then Some (col_mean p rows col)
               else if col \<in> set (columns rows) \<and> col \<noteq> ''timestamp'' then Some (cell (last rows) col)
               else None)"
      using averages_lookup [of c rows p] by blast
    have "(numeric_col rows col \<and> col_numbers rows col \<noteq> [] \<longrightarrow>
                    map_of res col = Some (PFloat (np_round2 p (np_mean p (col_numbers rows col)))))
               \<and> (numeric_col rows col \<and> col_numbers rows col = [] \<longrightarrow> map_of res col = Some PNaN)
               \<and> (\<not> numeric_col rows col \<longrightarrow> map_of res col = Some (cell (last rows) col))"
      if "col \<in> set (columns rows)" "col \<noteq> ''timestamp''" for col
      using that by (simp add: l col_mean_def Let_def)
    moreover have "\<not> numeric_col rows ''timestamp'' \<longrightarrow> map_of res ''timestamp'' = None"
      by (simp add: l)
    ultimately show ?thesis using r by blast
  qed
  have c: "\<exists>res. calculate_averages p c = Some res \<and> map_of res ''ups_load'' = Some (PFloat 42)"
    if h: "df c = Some [row] \<and> map_of row ''ups_load'' = Some (PFloat 42)
              \<and> np_mean p [42] = 42 \<and> np_round2 p 42 = 42" for row
  proof -
    from h have d: "df c = Some [row]" and m: "map_of row ''ups_load'' = Some (PFloat 42)"
      and np: "np_mean p [42] = 42" "np_round2 p 42 = 42"
      by simp_all
    note s = single_row_column [OF m]
    from s(1) have cne: "columns [row] \<noteq> []" by auto
    have ne: "[row] \<noteq> []" by simp
    from averages_lookup [OF d ne cne, of p]
    obtain res where r: "calculate_averages p c = Some res"
      and l: "\<And>col. map_of res col =
              (if col \<in> set (columns [row]) \<and> numeric_col [row] col then Some (col_mean p [row] col)
               else if col \<in> set (columns [row]) \<and> col \<noteq> ''timestamp'' then Some (cell (last [row]) col)
               else None)"
      by blast
    have "col_mean p [row] ''ups_load'' = PFloat 42"
      by (simp add: col_mean_def s(3) np)
    then have "map_of res ''ups_load'' = Some (PFloat 42)"
      unfolding l using s(1,2) by simp
    with r show ?thesis by blast
  qed
  have e: "\<exists>res v. calculate_averages p c = Some res \<and> map_of res col = Some (PFloat v)
           \<and> \<bar>v - sum_list (col_numbers rows col) / of_nat (length (col_numbers rows col))\<bar>
                \<le> 1 / 200 + eps + dlt"
    if h: "df c = Some rows \<and> rows \<noteq> [] \<and> col \<in> set (columns rows) \<and> col \<noteq> ''timestamp''
          \<and> numeric_col rows col \<and> col_numbers rows col \<noteq> []
          \<and> \<bar>np_mean p (col_numbers rows col)
               - sum_list (col_numbers rows col) / of_nat (length (col_numbers rows col))\<bar> \<le> eps
          \<and> \<bar>np_round2 p (np_mean p (col_numbers rows col)) - np_mean p (col_numbers rows col)\<bar>
               \<le> 1 / 200 + dlt"
    for rows col eps dlt
  proof -
    let ?m = "sum_list (col_numbers rows col) / of_nat (length (col_numbers rows col))"
    let ?f = "np_mean p (col_numbers rows col)"
    let ?v = "np_round2 p ?f"
    from h have cin: "col \<in> set (columns rows)" and cne: "columns rows \<noteq> []" by auto
    from h cne have pre: "df c = Some rows \<and> rows \<noteq> [] \<and> columns rows \<noteq> []" by simp
    from b [OF pre] obtain res where r: "calculate_averages p c = Some res"
      and m: "\<forall>col\<in>set (columns rows). col \<noteq> ''timestamp'' \<longrightarrow>
                 (numeric_col rows col \<and> col_numbers rows col \<noteq> [] \<longrightarrow>
                    map_of res col = Some (PFloat (np_round2 p (np_mean p (col_numbers rows col)))))"
      by blast
    from m cin h have v: "map_of res col = Some (PFloat ?v)" by blast
    from h have e1: "\<bar>?f - ?m\<bar> \<le> eps" and e2: "\<bar>?v - ?f\<bar> \<le> 1 / 200 + dlt" by simp_all
    have "\<bar>?v - ?m\<bar> \<le> \<bar>?v - ?f\<bar> + \<bar>?f - ?m\<bar>" by linarith
    with e1 e2 have "\<bar>?v - ?m\<bar> \<le> 1 / 200 + eps + dlt" by linarith
    with r v show ?thesis by blast
  qed
  from a b e c show ?thesis by blast
qed

text \<open>The theorem at a buffer of one sample with a load of 42.0, and at the empty buffer.\<close>

theorem calculate_averages_mean_and_last_row_witness:
  "df cache_load42 = Some rows_load42 \<and> rows_load42 \<noteq> [] \<and> columns rows_load42 \<noteq> []
   \<and> ''ups_load'' \<in> set (columns rows_load42)
   \<and> numeric_col rows_load42 ''ups_load''
   \<and> col_numbers rows_load42 ''ups_load'' = [42]
   \<and> np_mean py_demo [42] = 42 \<and> np_round2 py_demo 42 = 42
   \<and> map_of (the (calculate_averages py_demo cache_load42)) ''ups_load'' = Some (PFloat 42)
   \<and> calculate_averages py_demo (init_cache 60) = None"
proof -
  have cols: "columns rows_load42 = [''timestamp'', ''ups_load'']"
    by (simp add: columns_def rows_load42_def)
  have num: "numeric_col rows_load42 ''ups_load''"
    by (simp add: numeric_col_def rows_load42_def cell_def)
  have ne: "rows_load42 \<noteq> []" by (simp add: rows_load42_def)
  have e: "df (init_cache 60) = None" by (simp add: init_cache_def)
  have np: "np_mean py_demo [42] = 42" "np_round2 py_demo 42 = 42"
    by (simp_all add: py_demo_def)
  have d: "df cache_load42 = Some [[(''timestamp'', PTime 1000000000), (''ups_load'', PFloat 42)]]"
    using df_cache_load42 by (simp add: rows_load42_def)
  have m: "map_of [(''timestamp'', PTime 1000000000), (''ups_load'', PFloat 42)] ''ups_load''
             = Some (PFloat 42)"
    by simp
  from calculate_averages_mean_and_last_row [where c = cache_load42 and p = py_demo] d m np
  obtain res where r: "calculate_averages py_demo cache_load42 = Some res"
    and v: "map_of res ''ups_load'' = Some (PFloat 42)"
    by blast
  from r v have w: "map_of (the (calculate_averages py_demo cache_load42)) ''ups_load'' = Some (PFloat 42)"
    by simp
  from calculate_averages_mean_and_last_row [where c = "init_cache 60" and p = py_demo] e
  have n: "calculate_averages py_demo (init_cache 60) = None" by blast
  have nums: "col_numbers rows_load42 ''ups_load'' = [42]"
    by (simp add: col_numbers_def rows_load42_def cell_def List.map_filter_def)
  from df_cache_load42 ne cols num nums np w n show ?thesis by simp
qed

text \<open>
  Read as "last write wins", the claim fails for a non-numeric column that the last sample
  lacks: the alarm text buffered with the first sample is not returned, NaN is.
\<close>

theorem last_write_wins_counterexample:
  "df cache_alarm = Some rows_alarm
   \<and> \<not> numeric_col rows_alarm ''ups_alarm''
   \<and> map_of (the (calculate_averages py_demo cache_alarm)) ''ups_alarm'' = Some PNaN
   \<and> most_recently_buffered rows_alarm ''ups_alarm'' = Some (PStr ''Replace battery!'')"
proof -
  have cols: "columns rows_alarm = [''timestamp'', ''ups_status'', ''ups_alarm'']"
    by (simp add: columns_def rows_alarm_def)
  have n1: "\<not> numeric_col rows_alarm ''ups_alarm''"
    and n2: "\<not> numeric_col rows_alarm ''ups_status''" and n3: "\<not> numeric_col rows_alarm ''timestamp''"
    by (simp_all add: numeric_col_def rows_alarm_def cell_def)
  have ne: "rows_alarm \<noteq> []" by (simp add: rows_alarm_def)
  have lst: "cell (last rows_alarm) ''ups_alarm'' = PNaN"
    by (simp add: rows_alarm_def cell_def)
  from averages_lookup [OF df_cache_alarm ne, of py_demo] cols
  obtain res where r: "calculate_averages py_demo cache_alarm = Some res"
    and l: "\<And>col. map_of res col =
              (if col \<in> set (columns rows_alarm) \<and> numeric_col rows_alarm col then Some (col_mean py_demo rows_alarm col)
               else if col \<in> set (columns rows_alarm) \<and> col \<noteq> ''timestamp'' then Some (cell (last rows_alarm) col)
               else None)"
    by auto
  have "map_of res ''ups_alarm'' = Some PNaN"
    unfolding l by (simp add: cols n1 lst)
  with r have m: "map_of (the (calculate_averages py_demo cache_alarm)) ''ups_alarm'' = Some PNaN" by simp
  have b: "most_recently_buffered rows_alarm ''ups_alarm'' = Some (PStr ''Replace battery!'')"
    by (simp add: most_recently_buffered_def rows_alarm_def List.map_filter_def)
  from df_cache_alarm n1 m b show ?thesis by simp
qed

section \<open>Properties of the broadcast\<close>

lemma significant_change_iff:
  "significant_change p bd prev ms \<longleftrightarrow>
     (\<exists>m\<in>set ms. \<exists>c l. map_of bd m = Some c \<and> map_of prev m = Some l
        \<and> (\<forall>a b. float_of p (or_zero c) = Some a \<and> float_of p (or_zero l) = Some b
               \<longrightarrow> differ_by_one p a b))"
proof (induction ms)
  case Nil
  show ?case by simp
next
  case (Cons m ms)
  show ?case
  proof (cases "map_of bd m")
    case None
    then show ?thesis using Cons.IH by simp
  next
    case (Some c)
    note c = this
    show ?thesis
    proof (cases "map_of prev m")
      case None
      then show ?thesis using Cons.IH c by simp
    next
      case (Some l)
      note l = this
      show ?thesis
      proof (cases "float_of p (or_zero c)")
        case None
        then show ?thesis using c l by auto
      next
        case (Some a)
        note a = this
        show ?thesis
        proof (cases "float_of p (or_zero l)")
          case None
          then show ?thesis using c l a by auto
        next
          case (Some b)
          then show ?thesis using c l a Cons.IH by auto
        qed
      qed
    qed
  qed
qed

lemma number_float_of:
  "number_of v = Some a \<Longrightarrow> float_of p (or_zero v) = Some (Fin a)"
  by (cases v) (auto split: if_splits)

lemma broadcast_emits:
  "snd (broadcast_cache_update env p c d) =
     (if d = [] then []
      else case last_broadcast c of
             None \<Rightarrow> [payload env d]
           | Some prev \<Rightarrow>
               if prev \<noteq> [] \<and> py_eq_opt (map_of (payload env d) ''ups_status'') (map_of prev ''ups_status'')
                   \<and> \<not> significant_change p (payload env d) prev important_metrics
               then [] else [payload env d])"
  by (simp add: broadcast_cache_update_def payload_def Let_def split: option.splits)

lemma broadcast_state:
  "fst (broadcast_cache_update env p c d) =
     (if snd (broadcast_cache_update env p c d) = [] then c
      else c\<lparr>last_broadcast := Some (payload env d)\<rparr>)"
  by (simp add: broadcast_cache_update_def payload_def Let_def split: option.splits)


lemma not_differ_by_one:
  "\<not> differ_by_one p a b \<longleftrightarrow>
     (a = NaN \<or> b = NaN \<or> (\<exists>x y. a = Fin x \<and> b = Fin y \<and> \<bar>fsub p x y\<bar> < 1))"
  by (cases a; cases b) (auto simp: not_le)

lemma not_significant_iff:
  "\<not> significant_change p bd prev ms \<longleftrightarrow>
     (\<forall>m\<in>set ms. \<forall>cv lv. map_of bd m = Some cv \<and> map_of prev m = Some lv \<longrightarrow>
        (\<exists>a b. float_of p (or_zero cv) = Some a \<and> float_of p (or_zero lv) = Some b
               \<and> (a = NaN \<or> b = NaN \<or> (\<exists>x y. a = Fin x \<and> b = Fin y \<and> \<bar>fsub p x y\<bar> < 1))))"
proof -
  have "\<not> significant_change p bd prev ms \<longleftrightarrow>
     (\<forall>m\<in>set ms. \<forall>cv lv. map_of bd m = Some cv \<and> map_of prev m = Some lv \<longrightarrow>
        (\<exists>a b. float_of p (or_zero cv) = Some a \<and> float_of p (or_zero lv) = Some b
               \<and> \<not> differ_by_one p a b))"
    unfolding significant_change_iff by (meson option.exhaust)
  then show ?thesis unfolding not_differ_by_one .
qed

text \<open>
  Claim C9, as the code has it.  After a first broadcast, a non-empty sample is not
  broadcast exactly when its status equals the one last broadcast and, for each of
  \<open>ups_load\<close>, \<open>battery_charge\<close>, \<open>ups_realpower\<close> and \<open>input_voltage\<close> that the sample and
  the last broadcast both have, both values convert to floats and either one of the floats
  is NaN or the absolute value of their float difference is below 1; a value that does
  not convert counts as a change.  In particular, where the float difference of two numbers
  at most 0.5 apart is below 1 in absolute value, an equal status and numeric metrics
  within 0.5 of the last broadcast give no broadcast.  A sample that is not broadcast
  leaves the cache as it is; a broadcast sends the sample with its timestamp and remembers
  it.
\<close>

theorem broadcast_skipped_iff_not_significant:
  assumes lb: "last_broadcast c = Some prev" and pne: "prev \<noteq> []" and dne: "d \<noteq> []"
  shows "((snd (broadcast_cache_update env p c d) = []) \<longleftrightarrow>
            (py_eq_opt (map_of (payload env d) ''ups_status'') (map_of prev ''ups_status'')
             \<and> (\<forall>m\<in>set [''ups_load'', ''battery_charge'', ''ups_realpower'', ''input_voltage''].
                  \<forall>cv lv. map_of (payload env d) m = Some cv \<and> map_of prev m = Some lv \<longrightarrow>
                    (\<exists>a b. float_of p (or_zero cv) = Some a \<and> float_of p (or_zero lv) = Some b
                           \<and> (a = NaN \<or> b = NaN
                               \<or> (\<exists>x y. a = Fin x \<and> b = Fin y \<and> \<bar>fsub p x y\<bar> < 1))))))
       \<and> ((\<forall>x y. \<bar>x - y\<bar> \<le> 1 / 2 \<longrightarrow> \<bar>fsub p x y\<bar> < 1)
            \<and> py_eq_opt (map_of (payload env d) ''ups_status'') (map_of prev ''ups_status'')
            \<and> (\<forall>m\<in>set [''ups_load'', ''battery_charge'', ''ups_realpower'', ''input_voltage''].
                  \<forall>cv lv. map_of (payload env d) m = Some cv \<and> map_of prev m = Some lv \<longrightarrow>
                    (\<exists>a b. number_of cv = Some a \<and> number_of lv = Some b \<and> \<bar>a - b\<bar> \<le> 1 / 2))
            \<longrightarrow> snd (broadcast_cache_update env p c d) = [])
       \<and> (snd (broadcast_cache_update env p c d) = [] \<longrightarrow> fst (broadcast_cache_update env p c d) = c)
       \<and> (snd (broadcast_cache_update env p c d) \<noteq> [] \<longrightarrow>
              snd (broadcast_cache_update env p c d) = [payload env d]
            \<and> fst (broadcast_cache_update env p c d) = c\<lparr>last_broadcast := Some (payload env d)\<rparr>)"
proof -
  let ?bd = "payload env d"
  let ?ms = "[''ups_load'', ''battery_charge'', ''ups_realpower'', ''input_voltage'']"
  let ?st = "py_eq_opt (map_of ?bd ''ups_status'') (map_of prev ''ups_status'')"
  have ms: "important_metrics = ?ms" by (simp add: important_metrics_def)
  have em: "snd (broadcast_cache_update env p c d) =
              (if ?st \<and> \<not> significant_change p ?bd prev ?ms then [] else [?bd])"
    using lb pne dne by (simp add: broadcast_emits ms)
  have c1: "(snd (broadcast_cache_update env p c d) = []) \<longleftrightarrow>
            (?st \<and> (\<forall>m\<in>set ?ms. \<forall>cv lv.
                    map_of ?bd m = Some cv \<and> map_of prev m = Some lv \<longrightarrow>
                    (\<exists>a b. float_of p (or_zero cv) = Some a \<and> float_of p (or_zero lv) = Some b
                           \<and> (a = NaN \<or> b = NaN
                               \<or> (\<exists>x y. a = Fin x \<and> b = Fin y \<and> \<bar>fsub p x y\<bar> < 1)))))"
    unfolding not_significant_iff [symmetric] em by simp
  have c2: "snd (broadcast_cache_update env p c d) = []"
    if fs: "\<forall>x y. \<bar>x - y\<bar> \<le> 1 / 2 \<longrightarrow> \<bar>fsub p x y\<bar> < 1"
      and st: ?st
      and near: "\<forall>m\<in>set ?ms. \<forall>cv lv.
                    map_of ?bd m = Some cv \<and> map_of prev m = Some lv \<longrightarrow>
                    (\<exists>a b. number_of cv = Some a \<and> number_of lv = Some b \<and> \<bar>a - b\<bar> \<le> 1 / 2)"
  proof -
    have "\<exists>a b. float_of p (or_zero cv) = Some a \<and> float_of p (or_zero lv) = Some b
                           \<and> (a = NaN \<or> b = NaN
                               \<or> (\<exists>x y. a = Fin x \<and> b = Fin y \<and> \<bar>fsub p x y\<bar> < 1))"
      if m: "m \<in> set ?ms" and v: "map_of ?bd m = Some cv" "map_of prev m = Some lv"
      for m cv lv
    proof -
      from near m v obtain a b where ab: "number_of cv = Some a" "number_of lv = Some b"
        and le: "\<bar>a - b\<bar> \<le> 1 / 2" by blast
      have "float_of p (or_zero cv) = Some (Fin a)" "float_of p (or_zero lv) = Some (Fin b)"
        using ab by (simp_all add: number_float_of)
      moreover have "\<bar>fsub p a b\<bar> < 1" using fs le by blast
      ultimately show ?thesis by blast
    qed
    with st show ?thesis unfolding c1 by blast
  qed
  have c3: "snd (broadcast_cache_update env p c d) = [] \<longrightarrow> fst (broadcast_cache_update env p c d) = c"
    by (simp add: broadcast_state)
  have c4: "snd (broadcast_cache_update env p c d) \<noteq> [] \<longrightarrow>
              snd (broadcast_cache_update env p c d) = [payload env d]
            \<and> fst (broadcast_cache_update env p c d) = c\<lparr>last_broadcast := Some (payload env d)\<rparr>"
    unfolding broadcast_state unfolding em by simp
  from c1 c2 c3 c4 show ?thesis by blast
qed


lemma add_as_broadcast:
  "add env p c t d =
     broadcast_cache_update env p
       ((if next_save_time c = None then c\<lparr>next_save_time := Some (get_next_minute env t)\<rparr> else c)
          \<lparr>data := data c @ [(t, fold (\<lambda>(key, value). dict_set (dots_to_underscores key) value) d [])],
           df := Some (map df_row (data c @ [(t, fold (\<lambda>(key, value). dict_set (dots_to_underscores key) value) d [])]))\<rparr>)
       (fold (\<lambda>(key, value). dict_set (dots_to_underscores key) value) d [])"
  by (simp add: add_def Let_def)

lemma format_sample_ol:
  "fold (\<lambda>(key, value). dict_set (dots_to_underscores key) value) (sample_ol x) [] = sample_ol x"
  by (simp add: sample_ol_def dict_set_def dots_to_underscores_def)

lemma format_sample_na:
  "fold (\<lambda>(key, value). dict_set (dots_to_underscores key) value) sample_na [] = sample_na"
  by (simp add: sample_na_def dict_set_def dots_to_underscores_def)

lemma payload_sample_ol:
  "payload env (sample_ol x)
     = [(''timestamp'', PStr (now_iso env)), (''ups_status'', PStr ''OL''), (''ups_load'', PFloat x)]"
  by (simp add: payload_def sample_ol_def dict_merge_def dict_set_def)

lemma payload_sample_na:
  "payload env sample_na
     = [(''timestamp'', PStr (now_iso env)), (''ups_status'', PStr ''OL''), (''ups_load'', PStr ''n/a'')]"
  by (simp add: payload_def sample_na_def dict_merge_def dict_set_def)

lemma last_broadcast_first_add:
  "d \<noteq> [] \<Longrightarrow> fold (\<lambda>(key, value). dict_set (dots_to_underscores key) value) d [] = d \<Longrightarrow>
   last_broadcast (fst (add env p (init_cache n) t d)) = Some (payload env d)"
  unfolding add_as_broadcast broadcast_state
  by (simp add: broadcast_emits init_cache_def)

lemma last_broadcast_ol50: "last_broadcast cache_ol50 = Some (payload env_c (sample_ol 50))"
  unfolding cache_ol50_def
  by (rule last_broadcast_first_add) (simp_all add: format_sample_ol, simp add: sample_ol_def)

lemma last_broadcast_na: "last_broadcast cache_na = Some (payload env_c sample_na)"
  unfolding cache_na_def
  by (rule last_broadcast_first_add) (simp_all add: format_sample_na, simp add: sample_na_def)

lemma last_broadcast_ol04: "last_broadcast cache_ol04 = Some (payload env_c (sample_ol double_0_4))"
  unfolding cache_ol04_def
  by (rule last_broadcast_first_add) (simp_all add: format_sample_ol, simp add: sample_ol_def)

lemma fsub_py_demo: "\<forall>x y. \<bar>x - y\<bar> \<le> 1 / 2 \<longrightarrow> \<bar>fsub py_demo x y\<bar> < 1"
  by (simp add: py_demo_def)

text \<open>
  Two runs of the theorem: a load of 50.5 after a broadcast load of 50 is not broadcast (the
  particular case), and neither is a load of 1.4 after a broadcast load of 0.4, the
  difference of the two doubles being just below 1.
\<close>

theorem broadcast_skipped_iff_not_significant_witness:
  "last_broadcast cache_ol50 = Some (payload env_c (sample_ol 50))
   \<and> payload env_c (sample_ol 50) \<noteq> [] \<and> sample_ol (101 / 2) \<noteq> []
   \<and> snd (broadcast_cache_update env_c py_demo cache_ol50 (sample_ol (101 / 2))) = []
   \<and> fst (broadcast_cache_update env_c py_demo cache_ol50 (sample_ol (101 / 2))) = cache_ol50
   \<and> last_broadcast cache_ol04 = Some (payload env_c (sample_ol double_0_4))
   \<and> \<bar>fsub py_demo double_1_4 double_0_4\<bar> < 1
   \<and> snd (broadcast_cache_update env_c py_demo cache_ol04 (sample_ol double_1_4)) = []"
proof -
  let ?ms = "[''ups_load'', ''battery_charge'', ''ups_realpower'', ''input_voltage'']"
  let ?prev = "payload env_c (sample_ol 50)" and ?d = "sample_ol (101 / 2)"
  have pne: "payload env_c (sample_ol x) \<noteq> []" for x by (simp add: payload_sample_ol)
  have dne: "sample_ol x \<noteq> []" for x by (simp add: sample_ol_def)
  have st: "py_eq_opt (map_of (payload env_c (sample_ol x)) ''ups_status'')
                       (map_of (payload env_c (sample_ol y)) ''ups_status'')" for x y
    by (simp add: payload_sample_ol)
  have near: "\<forall>m\<in>set ?ms. \<forall>cv lv.
                    map_of (payload env_c ?d) m = Some cv \<and> map_of ?prev m = Some lv \<longrightarrow>
                    (\<exists>a b. number_of cv = Some a \<and> number_of lv = Some b \<and> \<bar>a - b\<bar> \<le> 1 / 2)"
  proof -
    have "\<exists>a::rat. a * 2 = 101 \<and> \<bar>a - 50\<bar> * 2 \<le> 1"
      by (rule exI [of _ "101 / 2"]) simp
    then show ?thesis
      by (simp add: payload_sample_ol)
  qed
  from broadcast_skipped_iff_not_significant [OF last_broadcast_ol50 pne dne, of env_c py_demo]
    fsub_py_demo st near
  have a: "snd (broadcast_cache_update env_c py_demo cache_ol50 ?d) = []
      \<and> fst (broadcast_cache_update env_c py_demo cache_ol50 ?d) = cache_ol50"
    by blast
  have lt: "\<bar>fsub py_demo double_1_4 double_0_4\<bar> < 1"
    by (simp add: py_demo_def double_1_4_def double_0_4_def)
  have nz: "double_0_4 \<noteq> 0" "double_1_4 \<noteq> 0"
    by (simp_all add: double_1_4_def double_0_4_def)
  have close: "\<forall>m\<in>set ?ms. \<forall>cv lv.
                 map_of (payload env_c (sample_ol double_1_4)) m = Some cv
                 \<and> map_of (payload env_c (sample_ol double_0_4)) m = Some lv \<longrightarrow>
                 (\<exists>a b. float_of py_demo (or_zero cv) = Some a \<and> float_of py_demo (or_zero lv) = Some b
                        \<and> (a = NaN \<or> b = NaN
                            \<or> (\<exists>x y. a = Fin x \<and> b = Fin y \<and> \<bar>fsub py_demo x y\<bar> < 1)))"
    using lt nz by (simp add: payload_sample_ol)
  from broadcast_skipped_iff_not_significant [OF last_broadcast_ol04 pne dne, of env_c py_demo] st close
  have b: "snd (broadcast_cache_update env_c py_demo cache_ol04 (sample_ol double_1_4)) = []"
    by blast
  from last_broadcast_ol50 pne dne a last_broadcast_ol04 lt b show ?thesis by blast
qed

text \<open>
  "Skipped exactly when nothing changed by one unit" fails for a metric that is not a
  number: the same sample, with the same status and the load \<open>n/a\<close>, is broadcast again.
\<close>

theorem unchanged_unparseable_metric_counterexample:
  "last_broadcast cache_na = Some (payload env_c sample_na)
   \<and> snd (broadcast_cache_update env_c py_demo cache_na sample_na) = [payload env_c sample_na]
   \<and> py_eq_opt (map_of (payload env_c sample_na) ''ups_status'')
                 (map_of (payload env_c sample_na) ''ups_status'')
   \<and> \<not> list_ex (metric_changed_by_one py_demo (payload env_c sample_na) (payload env_c sample_na))
            important_metrics"
proof -
  have st: "py_eq_opt (map_of (payload env_c sample_na) ''ups_status'')
                 (map_of (payload env_c sample_na) ''ups_status'')"
    by (simp add: payload_sample_na)
  have sg: "significant_change py_demo (payload env_c sample_na) (payload env_c sample_na) important_metrics"
    by (simp add: important_metrics_def payload_sample_na py_demo_def)
  have em: "snd (broadcast_cache_update env_c py_demo cache_na sample_na) = [payload env_c sample_na]"
    unfolding broadcast_emits last_broadcast_na using sg by (simp add: sample_na_def)
  have nc: "\<not> list_ex (metric_changed_by_one py_demo (payload env_c sample_na) (payload env_c sample_na))
            important_metrics"
    by (simp add: important_metrics_def payload_sample_na metric_changed_by_one_def py_demo_def)
  from last_broadcast_na em st nc show ?thesis by blast
qed

section \<open>Properties of the minute flush\<close>

lemma hourly_step_frame:
  "data (fst (hourly_step env p c table averages nst r t)) = data c"
  "df (fst (hourly_step env p c table averages nst r t)) = df c"
  "next_save_time (fst (hourly_step env p c table averages nst r t)) = next_save_time c"
  "cache_size (fst (hourly_step env p c table averages nst r t)) = cache_size c"
  "last_broadcast (fst (hourly_step env p c table averages nst r t)) = last_broadcast c"
  by (simp_all add: hourly_step_def Let_def split: option.splits)

lemma should_aggregate_daily_frame:
  "data (snd (should_aggregate_daily env c t)) = data c"
  "df (snd (should_aggregate_daily env c t)) = df c"
  "next_save_time (snd (should_aggregate_daily env c t)) = next_save_time c"
  "cache_size (snd (should_aggregate_daily env c t)) = cache_size c"
  "last_broadcast (snd (should_aggregate_daily env c t)) = last_broadcast c"
  by (simp_all add: should_aggregate_daily_def Let_def)

lemma with_next_hour_frame:
  "data (with_next_hour env c t) = data c"
  "df (with_next_hour env c t) = df c"
  "next_save_time (with_next_hour env c t) = next_save_time c"
  "cache_size (with_next_hour env c t) = cache_size c"
  "last_broadcast (with_next_hour env c t) = last_broadcast c"
  "is_save_time (with_next_hour env c t) t' = is_save_time c t'"
  "calculate_averages p (with_next_hour env c t) = calculate_averages p c"
  by (simp_all add: with_next_hour_def is_save_time_def calculate_averages_def)

lemma csa_not_ready:
  assumes "\<not> is_save_time c t \<or> calculate_averages p c = None \<or> calculate_averages p c = Some []"
  shows "calculate_and_save_averages env p c table t = (False, with_next_hour env c t, table)"
  using assms with_next_hour_frame(6) [of env c t] with_next_hour_frame(7) [of p env c t]
  unfolding calculate_and_save_averages_def with_next_hour_def [symmetric] Let_def
  by (auto split: option.splits)

lemma csa_ready:
  assumes "is_save_time c t" and "calculate_averages p c = Some averages" and "averages \<noteq> []"
    and "next_save_time c = Some nst"
  shows "calculate_and_save_averages env p c table t =
     (let h = hourly_step env p (with_next_hour env c t) table averages nst
                (fix_critical env averages (set_averages env averages [(''timestamp_tz'', PTime nst)])) t
      in case snd h of
           None \<Rightarrow> (False, fst h, table)
         | Some record \<Rightarrow>
             if persist_raises env then (False, fst h, table)
             else (True,
                   snd (should_aggregate_daily env
                          ((fst h)\<lparr>data := [], df := None,
                                  next_save_time := Some (get_next_minute env t)\<rparr>) t),
                   if fst (should_aggregate_daily env
                          ((fst h)\<lparr>data := [], df := None,
                                  next_save_time := Some (get_next_minute env t)\<rparr>) t)
                   then aggregate_daily_data env p (table @ [record]) t else table @ [record]))"
  using assms with_next_hour_frame(3,6) [of env c t] with_next_hour_frame(7) [of p env c t]
  unfolding calculate_and_save_averages_def with_next_hour_def [symmetric] Let_def
  by (simp split: option.splits prod.splits)




lemma is_save_time_nst: "is_save_time c t \<Longrightarrow> \<exists>nst. next_save_time c = Some nst"
  by (cases "next_save_time c") (simp_all add: is_save_time_def)

text \<open>
  Claim C6.  With an empty buffer (no samples, no DataFrame) \<open>calculate_and_save_averages\<close>
  returns \<open>False\<close> and leaves the table of aggregate records as it is; the buffer, the next
  save time and the hourly side buffer are unchanged, only \<open>next_hour\<close> is initialised when
  it was not yet set.
\<close>

theorem flush_of_empty_buffer_is_noop:
  assumes "data c = []" and "df c = None"
  shows "calculate_and_save_averages env p c table t = (False, with_next_hour env c t, table)
       \<and> data (with_next_hour env c t) = []
       \<and> df (with_next_hour env c t) = None
       \<and> next_save_time (with_next_hour env c t) = next_save_time c
       \<and> hourly_data (with_next_hour env c t) = hourly_data c"
proof -
  from assms(2) have "calculate_averages p c = None"
    by (simp add: calculate_averages_def)
  then have "calculate_and_save_averages env p c table t = (False, with_next_hour env c t, table)"
    by (simp add: csa_not_ready)
  moreover have "hourly_data (with_next_hour env c t) = hourly_data c"
    by (simp add: with_next_hour_def)
  ultimately show ?thesis
    using assms by (simp add: with_next_hour_frame)
qed







theorem flush_of_empty_buffer_is_noop_witness:
  "data (init_cache 60) = [] \<and> df (init_cache 60) = None
   \<and> calculate_and_save_averages env_c py_demo (init_cache 60) [] 1021000000
        = (False, (init_cache 60)\<lparr>next_hour := Some 3600000000\<rparr>, [])"
proof -
  have d: "data (init_cache 60) = []" and f: "df (init_cache 60) = None"
    by (simp_all add: init_cache_def)
  have w: "with_next_hour env_c (init_cache 60) 1021000000 = (init_cache 60)\<lparr>next_hour := Some 3600000000\<rparr>"
    by (simp add: with_next_hour_def init_cache_def get_next_hour_def env_c_def HOUR_def MINUTE_def SECOND_def)
  from flush_of_empty_buffer_is_noop [OF d f, where env = env_c and p = py_demo and table = "[]" and t = 1021000000]
  have "calculate_and_save_averages env_c py_demo (init_cache 60) [] 1021000000
        = (False, (init_cache 60)\<lparr>next_hour := Some 3600000000\<rparr>, [])"
    unfolding w by blast
  with d f show ?thesis by blast
qed

lemma cache_load42_eq:
  "cache_load42 = \<lparr> cache_size = 60, data = [(1000000000, [(''ups_load'', PFloat 42)])],
       df = Some rows_load42, next_save_time = Some 1020000000, next_hour = None,
       hourly_data = [], last_daily_aggregation = None,
       last_broadcast = Some [(''timestamp'', PStr ''2026-01-01T00:00:00''), (''ups_load'', PFloat 42)] \<rparr>"
  by (simp add: cache_load42_def add_def broadcast_cache_update_def Let_def init_cache_def
      get_next_minute_def env_c_def MINUTE_def SECOND_def dict_set_def dots_to_underscores_def
      dict_merge_def df_row_def rows_load42_def)





lemma ready_load42:
  "is_save_time cache_load42 1021000000" "next_save_time cache_load42 = Some 1020000000"
  by (simp_all add: is_save_time_def cache_load42_eq)

















section \<open>Properties of the flush trigger\<close>

lemma csa_cache_size:
  "cache_size (fst (snd (calculate_and_save_averages env p c table t))) = cache_size c"
proof (cases "\<not> is_save_time c t \<or> calculate_averages p c = None \<or> calculate_averages p c = Some []")
  case True
  then show ?thesis
    using csa_not_ready [where c = c and t = t and env = env and table = table and p = p] by (simp add: with_next_hour_frame)
next
  case False
  then obtain averages where a: "is_save_time c t" "calculate_averages p c = Some averages" "averages \<noteq> []"
    by auto
  from a(1) obtain nst where nst: "next_save_time c = Some nst"
    using is_save_time_nst by blast
  show ?thesis
    unfolding csa_ready [OF a nst] Let_def
    by (simp add: hourly_step_frame with_next_hour_frame should_aggregate_daily_frame split: option.splits)
qed

lemma adjust_size_size:
  "cache_size (adjust_size C ival c) = (if 1 < ival then max 5 (int_trunc_div C ival) else cache_size c)"
  by (simp add: adjust_size_def Let_def)

lemma save_ups_data_size:
  "cache_size (cache_of (save_ups_data env p nom run C ival now cfg c table)) = cache_size (adjust_size C ival c)"
  by (cases "get_ups_data p nom run cfg"; cases "snd (get_ups_data p nom run cfg)")
     (simp_all add: save_ups_data_def cache_of_def Let_def csa_cache_size add_buffers)

lemma add_all_frame:
  "length (data (add_all env p c xs)) = length (data c) + length xs"
  "cache_size (add_all env p c xs) = cache_size c"
  by (induction xs arbitrary: c) (simp_all add: add_buffers)

lemma add_all_nst:
  "xs \<noteq> [] \<or> next_save_time c \<noteq> None \<Longrightarrow> next_save_time (add_all env p c xs) \<noteq> None"
  by (induction xs arbitrary: c) (simp_all add: add_buffers)

lemma is_save_time_iff:
  "next_save_time c = Some nst \<Longrightarrow>
   is_save_time c t = (nst \<le> t \<or> cache_size c \<le> int (length (data c)))"
  by (simp add: is_save_time_def)

text \<open>
  Claim C4, as the code has it.  With a next save time set, \<open>is_save_time\<close> holds exactly
  when the current time has reached it or the buffer holds at least \<open>size\<close> samples.  A
  polling cycle with an interval above one second sets \<open>size\<close> to the larger of 5 and the
  integer part of window / interval; a cycle with another interval leaves \<open>size\<close> as it is.
  After enough \<open>add\<close> calls to reach \<open>size\<close>, \<open>is_save_time\<close> holds at every time, also
  before the minute boundary.  Before the boundary and with fewer samples than \<open>size\<close> the
  flush returns \<open>False\<close> and writes nothing.
\<close>

theorem save_time_and_buffer_cap:
  "(next_save_time c = Some nst \<longrightarrow>
      is_save_time c t = (nst \<le> t \<or> cache_size c \<le> int (length (data c))))
   \<and> cache_size (cache_of (save_ups_data env p nom run C ival now cfg c table))
        = (if 1 < ival then max 5 (int_trunc_div C ival) else cache_size c)
   \<and> (xs \<noteq> [] \<and> cache_size c \<le> int (length (data c) + length xs) \<longrightarrow>
        is_save_time (add_all env p c xs) t)
   \<and> (next_save_time c = Some nst \<and> t < nst \<and> int (length (data c)) < cache_size c \<longrightarrow>
        calculate_and_save_averages env p c table t = (False, with_next_hour env c t, table))"
proof -
  have a: "next_save_time c = Some nst \<longrightarrow>
      is_save_time c t = (nst \<le> t \<or> cache_size c \<le> int (length (data c)))"
    by (simp add: is_save_time_iff)
  have b: "cache_size (cache_of (save_ups_data env p nom run C ival now cfg c table))
        = (if 1 < ival then max 5 (int_trunc_div C ival) else cache_size c)"
    unfolding save_ups_data_size adjust_size_size ..
  have c: "is_save_time (add_all env p c xs) t"
    if "xs \<noteq> []" "cache_size c \<le> int (length (data c) + length xs)"
  proof -
    from that(1) obtain n where n: "next_save_time (add_all env p c xs) = Some n"
      using add_all_nst [of xs c env p] by auto
    show ?thesis
      unfolding is_save_time_iff [OF n] add_all_frame using that(2) by simp
  qed
  have d: "calculate_and_save_averages env p c table t = (False, with_next_hour env c t, table)"
    if "next_save_time c = Some nst" "t < nst" "int (length (data c)) < cache_size c"
  proof -
    have "\<not> is_save_time c t"
      unfolding is_save_time_iff [OF that(1)] using that(2,3) by simp
    then show ?thesis by (simp add: csa_not_ready)
  qed
  from a b c d show ?thesis by blast
qed


lemma add_all_keeps_nst:
  "next_save_time c = Some n \<Longrightarrow> next_save_time (add_all env p c xs) = Some n"
  by (induction xs arbitrary: c) (simp_all add: add_buffers)

lemma add_all_first_nst:
  "next_save_time c = None \<Longrightarrow>
   next_save_time (add_all env p c (x # xs)) = Some (get_next_minute env (fst x))"
  by (simp add: add_all_keeps_nst add_buffers)

lemma sixty_samples_Cons:
  "sixty_samples = (1020000000, sample_ol 50)
      # map (\<lambda>i. (1020000000 + int i * SECOND, sample_ol 50)) [1..<60]"
  by (simp add: sixty_samples_def upt_conv_Cons)

lemma length_sixty_samples: "length sixty_samples = 60"
  by (simp add: sixty_samples_def)

theorem save_time_and_buffer_cap_witness:
  "cache_size (cache_of (save_ups_data env_c py_demo (PInt 1000) run_demo 60 1 1020000000 cfg_demo
                           (init_cache 60) [])) = 60
   \<and> cache_size (cache_of cycle_interval2) = 30
   \<and> sixty_samples \<noteq> []
   \<and> cache_size (init_cache 60) \<le> int (length (data (init_cache 60)) + length sixty_samples)
   \<and> next_save_time (add_all env_c py_demo (init_cache 60) sixty_samples) = Some 1080000000
   \<and> is_save_time (add_all env_c py_demo (init_cache 60) sixty_samples) 1079000000
   \<and> next_save_time cache_load42 = Some 1020000000
   \<and> int (length (data cache_load42)) < cache_size cache_load42
   \<and> calculate_and_save_averages env_c py_demo cache_load42 [] 1001000000
        = (False, with_next_hour env_c cache_load42 1001000000, [])"
proof -
  have s60: "cache_size (init_cache 60) = 60" and d60: "data (init_cache 60) = []"
    and n60: "next_save_time (init_cache 60) = None"
    by (simp_all add: init_cache_def)
  have ne: "sixty_samples \<noteq> []" by (simp add: sixty_samples_Cons)
  have cap: "cache_size (init_cache 60) \<le> int (length (data (init_cache 60)) + length sixty_samples)"
    by (simp add: s60 d60 length_sixty_samples)
  have nst: "next_save_time (add_all env_c py_demo (init_cache 60) sixty_samples) = Some 1080000000"
    unfolding sixty_samples_Cons add_all_first_nst [OF n60]
    by (simp add: get_next_minute_def env_c_def MINUTE_def SECOND_def)
  have t1: "(1::int) < 2" and t0: "\<not> (1::int) < 1" by simp_all
  have i2: "max 5 (int_trunc_div 60 2) = 30" by (simp add: int_trunc_div_def)
  note th = save_time_and_buffer_cap [of "init_cache 60" 0 1079000000 env_c py_demo "PInt 1000" run_demo 60 _ _
      cfg_demo "[]" sixty_samples]
  from th [of 1 1020000000] have w1: "cache_size (cache_of (save_ups_data env_c py_demo (PInt 1000) run_demo 60 1
                  1020000000 cfg_demo (init_cache 60) [])) = 60"
    using t0 s60 by simp
  from th [of 2 1000000000] have w2: "cache_size (cache_of cycle_interval2) = 30"
    unfolding cycle_interval2_def using t1 i2 by simp
  from th [of 1 1020000000] ne cap
  have w3: "is_save_time (add_all env_c py_demo (init_cache 60) sixty_samples) 1079000000" by blast
  have l42: "int (length (data cache_load42)) < cache_size cache_load42"
    by (simp add: cache_load42_eq)
  from save_time_and_buffer_cap [of cache_load42 1020000000 1001000000 env_c py_demo "PInt 1000" run_demo
      60 1 0 cfg_demo "[]" "[]"] ready_load42(2) l42
  have w4: "calculate_and_save_averages env_c py_demo cache_load42 [] 1001000000
        = (False, with_next_hour env_c cache_load42 1001000000, [])" by simp
  from w1 w2 ne cap nst w3 ready_load42(2) l42 w4 show ?thesis by blast
qed

text \<open>
  The cap is not the claim's formula after every change of the interval: after a cycle with
  interval 2 (cap 30) a cycle with interval 1 keeps 30, where the formula gives 60; and a
  fresh cache with a 3 second window polled every second has cap 3, where the formula
  gives 5.
\<close>

theorem cap_recomputed_counterexample:
  "cache_size (cache_of cycle_interval2) = 30
   \<and> cache_size (cache_of (save_ups_data env_c py_demo (PInt 1000) run_demo 60 1 1002000000 cfg_demo
                            (cache_of cycle_interval2) (table_of cycle_interval2))) = 30
   \<and> max 5 (int_trunc_div 60 1) = 60
   \<and> cache_size (cache_of (save_ups_data env_c py_demo (PInt 1000) run_demo 3 1 1000000000 cfg_demo
                            (init_cache 3) [])) = 3
   \<and> max 5 (int_trunc_div 3 1) = 5"
proof -
  have a: "cache_size (cache_of cycle_interval2) = 30"
    unfolding cycle_interval2_def save_ups_data_size adjust_size_size
    by (simp add: int_trunc_div_def)
  have b: "cache_size (cache_of (save_ups_data env_c py_demo (PInt 1000) run_demo 60 1 1002000000 cfg_demo
                            (cache_of cycle_interval2) (table_of cycle_interval2))) = 30"
    unfolding save_ups_data_size adjust_size_size using a by simp
  have c: "cache_size (cache_of (save_ups_data env_c py_demo (PInt 1000) run_demo 3 1 1000000000 cfg_demo
                            (init_cache 3) [])) = 3"
    unfolding save_ups_data_size adjust_size_size by (simp add: init_cache_def)
  have d: "max 5 (int_trunc_div 60 1) = 60" "max 5 (int_trunc_div 3 1) = 5"
    by (simp_all add: int_trunc_div_def)
  from a b c d show ?thesis by blast
qed

section \<open>Properties of the placeholder sample\<close>

lemma get_ups_data_placeholder:
  assumes "py_not (name cfg) \<or> py_not (host cfg)"
  shows "snd (get_ups_data p nom run cfg) = Inr placeholder_sample"
  using assms by (auto simp: get_ups_data_def Let_def)

lemma format_placeholder:
  "fold (\<lambda>(key, value). dict_set (dots_to_underscores key) value) placeholder_sample []
     = placeholder_sample"
  by (simp add: placeholder_sample_def dict_set_def dots_to_underscores_def)

lemma df_row_placeholder:
  "df_row (now, placeholder_sample) = (''timestamp'', PTime now) # placeholder_sample"
  by (simp add: df_row_def placeholder_sample_def dict_merge_def dict_set_def)

lemma set_columns: "set (columns rows) = (\<Union>r\<in>set rows. fst ` set r)"
  by (auto simp: columns_def)

lemma numeric_col_snoc:
  "numeric_col (xs @ [r]) c = (numeric_col xs c \<and> is_number (cell r c))"
  by (simp add: numeric_col_def)

lemma col_numbers_snoc:
  "col_numbers (xs @ [r]) c
     = col_numbers xs c @ (case number_of (cell r c) of None \<Rightarrow> [] | Some x \<Rightarrow> [x])"
  by (simp add: col_numbers_def List.map_filter_def split: option.splits)

lemma placeholder_cells:
  "cell ((''timestamp'', PTime now) # placeholder_sample) ''ups_status'' = PStr ''ERROR''"
  "cell ((''timestamp'', PTime now) # placeholder_sample) ''battery_charge'' = PFloat 0"
  "cell ((''timestamp'', PTime now) # placeholder_sample) ''battery_runtime'' = PInt 0"
  "cell ((''timestamp'', PTime now) # placeholder_sample) ''input_voltage'' = PFloat 0"
  "cell ((''timestamp'', PTime now) # placeholder_sample) ''output_voltage'' = PFloat 0"
  by (simp_all add: cell_def placeholder_sample_def)

lemma placeholder_keys:
  "fst ` set ((''timestamp'', PTime now) # placeholder_sample)
     = {''timestamp'', ''ups_status'', ''battery_charge'', ''battery_runtime'', ''input_voltage'',
        ''output_voltage''}"
  by (auto simp: placeholder_sample_def)

lemma averages_with_placeholder:
  assumes d0: "df c = Some (old @ [(''timestamp'', PTime now) # placeholder_sample])"
  shows "\<exists>res. calculate_averages p c = Some res
        \<and> map_of res ''ups_status'' = Some (PStr ''ERROR'')
        \<and> (\<forall>col\<in>set [''battery_charge'', ''battery_runtime'', ''input_voltage'', ''output_voltage''].
             (numeric_col old col \<longrightarrow>
                map_of res col = Some (PFloat (np_round2 p (np_mean p (col_numbers old col @ [0])))))
             \<and> (\<not> numeric_col old col \<longrightarrow> map_of res col = map_of placeholder_sample col))"
proof -
  let ?r = "(''timestamp'', PTime now) # placeholder_sample"
  define rows where "rows = old @ [?r]"
  have d: "df c = Some rows" using d0 by (simp add: rows_def)
  have ne: "rows \<noteq> []" by (simp add: rows_def)
  have keys: "fst ` set ?r \<subseteq> set (columns rows)"
    unfolding set_columns rows_def by auto
  then have cne: "columns rows \<noteq> []" by auto
  from averages_lookup [OF d ne cne, of p]
  obtain res where r: "calculate_averages p c = Some res"
    and l: "\<And>col. map_of res col =
              (if col \<in> set (columns rows) \<and> numeric_col rows col then Some (col_mean p rows col)
               else if col \<in> set (columns rows) \<and> col \<noteq> ''timestamp'' then Some (cell (last rows) col)
               else None)"
    by blast
  have lst: "last rows = ?r" by (simp add: rows_def)
  have st_in: "''ups_status'' \<in> set (columns rows)"
    using keys unfolding placeholder_keys by blast
  have st_nn: "\<not> numeric_col rows ''ups_status''"
    unfolding rows_def numeric_col_snoc by (simp add: placeholder_cells)
  have s: "map_of res ''ups_status'' = Some (PStr ''ERROR'')"
    unfolding l using st_in st_nn by (simp add: lst placeholder_cells)
  have n: "map_of res col = Some (PFloat (np_round2 p (np_mean p (col_numbers old col @ [0]))))"
    if col: "col \<in> set [''battery_charge'', ''battery_runtime'', ''input_voltage'', ''output_voltage'']"
      and num: "numeric_col old col" for col
  proof -
    have cin: "col \<in> set (columns rows)"
      using keys col unfolding placeholder_keys by auto
    have z: "cell ?r col = PFloat 0 \<or> cell ?r col = PInt 0"
      using col by (auto simp: placeholder_cells)
    then have numr: "numeric_col rows col"
      unfolding rows_def numeric_col_snoc using num by auto
    have nums: "col_numbers rows col = col_numbers old col @ [0]"
      unfolding rows_def col_numbers_snoc using z by auto
    have "col_mean p rows col = PFloat (np_round2 p (np_mean p (col_numbers old col @ [0])))"
      by (simp add: col_mean_def nums Let_def)
    then show ?thesis unfolding l using cin numr by simp
  qed
  have o: "map_of res col = map_of placeholder_sample col"
    if col: "col \<in> set [''battery_charge'', ''battery_runtime'', ''input_voltage'', ''output_voltage'']"
      and num: "\<not> numeric_col old col" for col
  proof -
    have cin: "col \<in> set (columns rows)"
      using keys col unfolding placeholder_keys by auto
    have nn: "\<not> numeric_col rows col"
      unfolding rows_def numeric_col_snoc using num by simp
    have ts: "col \<noteq> ''timestamp''" using col by auto
    have "Some (cell ?r col) = map_of placeholder_sample col"
      using col by (auto simp: cell_def placeholder_sample_def)
    then show ?thesis unfolding l using cin nn ts by (simp add: lst)
  qed
  from r s n o show ?thesis by blast
qed

lemma save_ups_data_placeholder:
  assumes "py_not (name cfg) \<or> py_not (host cfg)"
  shows "fst (save_ups_data env p nom run C ival now cfg c table) = (True, None)"
    and "cache_of (save_ups_data env p nom run C ival now cfg c table)
           = fst (snd (calculate_and_save_averages env p
                         (fst (add env p (adjust_size C ival c) now placeholder_sample)) table now))"
  using get_ups_data_placeholder [OF assms, of p nom run]
  by (cases "get_ups_data p nom run cfg"; simp add: save_ups_data_def cache_of_def Let_def)+

text \<open>
  Claim C10.  When the configured UPS name or host is missing (\<open>None\<close> or empty),
  \<open>get_ups_data\<close> raises nothing and returns the placeholder sample with status \<open>ERROR\<close> and
  zeros.  The polling cycle then succeeds: the sample is added to the buffer and the flush
  is attempted as for any sample.  Added to a buffer, the sample comes last, and the
  averages of that buffer have the status \<open>ERROR\<close> (the last row's) and, for each of the
  four numeric fields, the rounded mean of the earlier numbers and the placeholder's zero
  when the field is numeric in the rows already there, and the placeholder's zero itself
  (the last row's value) when it is not.
\<close>

theorem placeholder_sample_is_buffered_and_averaged:
  assumes miss: "py_not (name cfg) \<or> py_not (host cfg)"
  shows "snd (get_ups_data p nom run cfg) = Inr placeholder_sample
   \<and> placeholder_sample = [(''ups_status'', PStr ''ERROR''), (''battery_charge'', PFloat 0),
                            (''battery_runtime'', PInt 0), (''input_voltage'', PFloat 0),
                            (''output_voltage'', PFloat 0)]
   \<and> fst (save_ups_data env p nom run C ival now cfg c table) = (True, None)
   \<and> cache_of (save_ups_data env p nom run C ival now cfg c table)
        = fst (snd (calculate_and_save_averages env p
                      (fst (add env p (adjust_size C ival c) now placeholder_sample)) table now))
   \<and> data (fst (add env p c now placeholder_sample)) = data c @ [(now, placeholder_sample)]
   \<and> (\<exists>res. calculate_averages p (fst (add env p c now placeholder_sample)) = Some res
        \<and> map_of res ''ups_status'' = Some (PStr ''ERROR'')
        \<and> (\<forall>col\<in>set [''battery_charge'', ''battery_runtime'', ''input_voltage'', ''output_voltage''].
             (numeric_col (map df_row (data c)) col \<longrightarrow>
                map_of res col
                  = Some (PFloat (np_round2 p (np_mean p (col_numbers (map df_row (data c)) col @ [0])))))
             \<and> (\<not> numeric_col (map df_row (data c)) col \<longrightarrow>
                  map_of res col = map_of placeholder_sample col)))"
proof -
  have a: "snd (get_ups_data p nom run cfg) = Inr placeholder_sample"
    using miss by (rule get_ups_data_placeholder)
  have a': "placeholder_sample = [(''ups_status'', PStr ''ERROR''), (''battery_charge'', PFloat 0),
                            (''battery_runtime'', PInt 0), (''input_voltage'', PFloat 0),
                            (''output_voltage'', PFloat 0)]"
    by (simp add: placeholder_sample_def)
  note b = save_ups_data_placeholder [OF miss, of env p nom run C ival now c table]
  have d: "data (fst (add env p c now placeholder_sample)) = data c @ [(now, placeholder_sample)]"
    by (simp add: add_buffers format_placeholder)
  have f: "df (fst (add env p c now placeholder_sample))
             = Some (map df_row (data c) @ [(''timestamp'', PTime now) # placeholder_sample])"
    by (simp add: add_buffers format_placeholder df_row_placeholder)
  from a a' b d averages_with_placeholder [OF f, of p] show ?thesis by blast
qed

lemma data_cache_charge: "data cache_charge = [(1000000000, sample_charge)]"
  unfolding cache_charge_def add_buffers
  by (simp add: init_cache_def sample_charge_def dict_set_def dots_to_underscores_def)

lemma rows_cache_charge:
  "map df_row (data cache_charge)
     = [[(''timestamp'', PTime 1000000000), (''ups_status'', PStr ''OL''),
         (''battery_charge'', PFloat 100)]]"
  unfolding data_cache_charge
  by (simp add: df_row_def sample_charge_def dict_merge_def dict_set_def)

text \<open>
  The theorem at a configuration without host and a buffer that holds one sample with a
  charge of 100: the placeholder is buffered after it and the averages have the status
  \<open>ERROR\<close> and a charge of 50.
\<close>

theorem placeholder_sample_is_buffered_and_averaged_witness:
  "py_not (host cfg_nohost)
   \<and> snd (get_ups_data py_demo (PInt 1000) run_demo cfg_nohost) = Inr placeholder_sample
   \<and> fst (save_ups_data env_c py_demo (PInt 1000) run_demo 60 1 1001000000 cfg_nohost cache_charge [])
        = (True, None)
   \<and> data (fst (add env_c py_demo cache_charge 1001000000 placeholder_sample))
        = [(1000000000, sample_charge), (1001000000, placeholder_sample)]
   \<and> map_of (the (calculate_averages py_demo
                     (fst (add env_c py_demo cache_charge 1001000000 placeholder_sample))))
        ''ups_status'' = Some (PStr ''ERROR'')
   \<and> map_of (the (calculate_averages py_demo
                     (fst (add env_c py_demo cache_charge 1001000000 placeholder_sample))))
        ''battery_charge'' = Some (PFloat 50)"
proof -
  let ?c = "fst (add env_c py_demo cache_charge 1001000000 placeholder_sample)"
  have h: "py_not (host cfg_nohost)"
    by (simp add: cfg_nohost_def py_not_def)
  then have miss: "py_not (name cfg_nohost) \<or> py_not (host cfg_nohost)" by simp
  note t = placeholder_sample_is_buffered_and_averaged
             [OF miss, where p = py_demo and nom = "PInt 1000" and run = run_demo and env = env_c
                and C = 60 and ival = 1 and now = 1001000000 and c = cache_charge and table = "[]"]
  from t have g: "snd (get_ups_data py_demo (PInt 1000) run_demo cfg_nohost) = Inr placeholder_sample"
    and s: "fst (save_ups_data env_c py_demo (PInt 1000) run_demo 60 1 1001000000 cfg_nohost cache_charge [])
              = (True, None)"
    and d: "data ?c = data cache_charge @ [(1001000000, placeholder_sample)]"
    by blast+
  from t obtain res where r: "calculate_averages py_demo ?c = Some res"
    and st: "map_of res ''ups_status'' = Some (PStr ''ERROR'')"
    and m: "\<forall>col\<in>set [''battery_charge'', ''battery_runtime'', ''input_voltage'', ''output_voltage''].
             (numeric_col (map df_row (data cache_charge)) col \<longrightarrow>
                map_of res col
                  = Some (PFloat (np_round2 py_demo
                                    (np_mean py_demo (col_numbers (map df_row (data cache_charge)) col @ [0])))))
             \<and> (\<not> numeric_col (map df_row (data cache_charge)) col \<longrightarrow>
                  map_of res col = map_of placeholder_sample col)"
    by blast
  have num: "numeric_col (map df_row (data cache_charge)) ''battery_charge''"
    unfolding rows_cache_charge by (simp add: numeric_col_def cell_def)
  have nums: "col_numbers (map df_row (data cache_charge)) ''battery_charge'' = [100]"
    unfolding rows_cache_charge by (simp add: col_numbers_def cell_def List.map_filter_def)
  from m num have "map_of res ''battery_charge''
               = Some (PFloat (np_round2 py_demo
                                 (np_mean py_demo
                                    (col_numbers (map df_row (data cache_charge)) ''battery_charge'' @ [0]))))"
    by simp
  then have ch: "map_of res ''battery_charge'' = Some (PFloat 50)"
    by (simp add: nums py_demo_def)
  have d': "data ?c = [(1000000000, sample_charge), (1001000000, placeholder_sample)]"
    using d by (simp add: data_cache_charge)
  from h g s d' r st ch show ?thesis by simp
qed

end
